theory Spec2Isabelle
  imports Complex_Main
begin

section \<open>JavaScript values used by the product queries\<close>

text \<open>
  Strings are sequences of 8-bit characters (the code units below 256 of a JavaScript
  string). A thrown value is represented by its \<open>message\<close>, the only part the code reads.
\<close>

datatype error = Error string

text \<open>
  A JavaScript number: the IEEE special values and the finite ones. A finite value is
  kept as the exact rational it denotes; rounding to the nearest double is not
  performed and the two zeros are one value.
\<close>

datatype number = NaN | PosInf | NegInf | Fin rat

text \<open>
  The value of one key of \<open>SearchParams\<close>: \<open>string | string[] | undefined\<close>.
  The object itself is the list of its entries in enumeration order.
\<close>

datatype param = Undefined | Str string | Arr "string list"

type_synonym search_params = "(string \<times> param) list"

definition get_prop :: "search_params \<Rightarrow> string \<Rightarrow> param" where
  "get_prop obj k = (case map_of obj k of None \<Rightarrow> Undefined | Some v \<Rightarrow> v)"

subsection \<open>String.prototype.split with a one-character separator\<close>

fun split_acc :: "char \<Rightarrow> string \<Rightarrow> string \<Rightarrow> string list" where
  "split_acc sep acc [] = [rev acc]"
| "split_acc sep acc (c # cs) =
     (if c = sep then rev acc # split_acc sep [] cs else split_acc sep (c # acc) cs)"

definition split :: "char \<Rightarrow> string \<Rightarrow> string list" where
  "split sep s = split_acc sep [] s"

text \<open>Reading index \<open>i\<close> of an array: \<open>undefined\<close> (here \<open>None\<close>) past its end.\<close>

fun at_index :: "'a list \<Rightarrow> nat \<Rightarrow> 'a option" where
  "at_index [] i = None"
| "at_index (x # xs) 0 = Some x"
| "at_index (x # xs) (Suc i) = at_index xs i"

subsection \<open>ToString, ToBoolean\<close>

fun join :: "string \<Rightarrow> string list \<Rightarrow> string" where
  "join sep [] = []"
| "join sep [x] = x"
| "join sep (x # y # ys) = x @ sep @ join sep (y # ys)"

fun to_string :: "param \<Rightarrow> string" where
  "to_string Undefined = ''undefined''"
| "to_string (Str s) = s"
| "to_string (Arr xs) = join '','' xs"

fun truthy :: "param \<Rightarrow> bool" where
  "truthy Undefined = False"
| "truthy (Str s) = (s \<noteq> [])"
| "truthy (Arr xs) = True"

subsection \<open>Numeric literals: Number(...) and parseFloat(...)\<close>

definition is_ws :: "char \<Rightarrow> bool" where
  "is_ws c = ((of_char c :: nat) \<in> {9, 10, 11, 12, 13, 32, 160})"

definition is_digit :: "char \<Rightarrow> bool" where
  "is_digit c = (48 \<le> (of_char c :: nat) \<and> (of_char c :: nat) \<le> 57)"

definition hex_val :: "char \<Rightarrow> nat option" where
  "hex_val c =
     (let n = (of_char c :: nat) in
      if 48 \<le> n \<and> n \<le> 57 then Some (n - 48)
      else if 97 \<le> n \<and> n \<le> 102 then Some (n - 87)
      else if 65 \<le> n \<and> n \<le> 70 then Some (n - 55)
      else None)"

text \<open>The value of a digit string in a base; \<open>None\<close> when a character is no digit of it.\<close>

fun digits_val :: "nat \<Rightarrow> nat \<Rightarrow> string \<Rightarrow> nat option" where
  "digits_val base acc [] = Some acc"
| "digits_val base acc (c # cs) =
     (case hex_val c of
        None \<Rightarrow> None
      | Some d \<Rightarrow> if d < base then digits_val base (base * acc + d) cs else None)"

definition dec_val :: "string \<Rightarrow> rat" where
  "dec_val ds = (case digits_val 10 0 ds of None \<Rightarrow> 0 | Some n \<Rightarrow> of_nat n)"

definition trim :: "string \<Rightarrow> string" where
  "trim s = rev (dropWhile is_ws (rev (dropWhile is_ws s)))"

text \<open>
  ExponentPart, optional: applied to the mantissa \<open>m\<close> and the text after it. An
  \<open>e\<close> that no digit follows is not part of the literal.
\<close>

definition exponent_part :: "rat \<Rightarrow> string \<Rightarrow> number \<times> string" where
  "exponent_part m r =
     (case r of
        [] \<Rightarrow> (Fin m, r)
      | e # r1 \<Rightarrow>
          if e = CHR ''e'' \<or> e = CHR ''E'' then
            (let neg = (case r1 of [] \<Rightarrow> False | s # _ \<Rightarrow> s = CHR ''-'');
                 r2 = (case r1 of [] \<Rightarrow> []
                       | s # t \<Rightarrow> if s = CHR ''+'' \<or> s = CHR ''-'' then t else r1);
                 es = takeWhile is_digit r2
             in if es = [] then (Fin m, r)
                else (case digits_val 10 0 es of
                        None \<Rightarrow> (Fin m, r)
                      | Some k \<Rightarrow>
                          (Fin (if neg then m / 10 ^ k else m * 10 ^ k),
                           dropWhile is_digit r2)))
          else (Fin m, r))"

text \<open>StrUnsignedDecimalLiteral: the longest prefix that is one, and the rest.\<close>

definition unsigned_decimal :: "string \<Rightarrow> (number \<times> string) option" where
  "unsigned_decimal s =
     (if take 8 s = ''Infinity'' then Some (PosInf, drop 8 s)
      else
        (let ds1 = takeWhile is_digit s; r1 = dropWhile is_digit s in
         case r1 of
           [] \<Rightarrow> if ds1 = [] then None else Some (exponent_part (dec_val ds1) r1)
         | c # r \<Rightarrow>
             if c = CHR ''.'' then
               (let ds2 = takeWhile is_digit r; r2 = dropWhile is_digit r in
                if ds1 = [] \<and> ds2 = [] then None
                else Some (exponent_part (dec_val ds1 + dec_val ds2 / 10 ^ length ds2) r2))
             else if ds1 = [] then None
             else Some (exponent_part (dec_val ds1) r1)))"

fun js_neg :: "number \<Rightarrow> number" where
  "js_neg NaN = NaN"
| "js_neg PosInf = NegInf"
| "js_neg NegInf = PosInf"
| "js_neg (Fin x) = Fin (- x)"

text \<open>StrDecimalLiteral: an optional sign, then the unsigned literal.\<close>

definition str_decimal :: "string \<Rightarrow> (number \<times> string) option" where
  "str_decimal s =
     (case s of
        [] \<Rightarrow> None
      | c # r \<Rightarrow>
          if c = CHR ''+'' then unsigned_decimal r
          else if c = CHR ''-'' then
            (case unsigned_decimal r of None \<Rightarrow> None | Some (n, t) \<Rightarrow> Some (js_neg n, t))
          else unsigned_decimal s)"

text \<open>NonDecimalIntegerLiteral: \<open>0x\<close>, \<open>0o\<close>, \<open>0b\<close> and at least one digit, unsigned.\<close>

definition non_decimal :: "string \<Rightarrow> rat option" where
  "non_decimal s =
     (case s of
        z # x # ds \<Rightarrow>
          if z = CHR ''0'' \<and> ds \<noteq> [] then
            (let base =
                   (if x = CHR ''x'' \<or> x = CHR ''X'' then 16
                    else if x = CHR ''o'' \<or> x = CHR ''O'' then 8
                    else if x = CHR ''b'' \<or> x = CHR ''B'' then 2 else 0)
             in case digits_val base 0 ds of None \<Rightarrow> None | Some n \<Rightarrow> Some (of_nat n))
          else None
      | _ \<Rightarrow> None)"

text \<open>StringToNumber: the whole trimmed string must be a literal; the empty one is 0.\<close>

definition string_to_number :: "string \<Rightarrow> number" where
  "string_to_number s =
     (let t = trim s in
      if t = [] then Fin 0
      else (case non_decimal t of
              Some n \<Rightarrow> Fin n
            | None \<Rightarrow>
                (case str_decimal t of
                   Some (n, []) \<Rightarrow> n
                 | _ \<Rightarrow> NaN)))"

text \<open>\<open>Number(v)\<close>: \<open>undefined\<close> is NaN, an array is converted through its string.\<close>

fun to_number :: "param \<Rightarrow> number" where
  "to_number Undefined = NaN"
| "to_number (Str s) = string_to_number s"
| "to_number (Arr xs) = string_to_number (join '','' xs)"

text \<open>\<open>parseFloat(s)\<close>: leading white space skipped, the longest literal prefix read.\<close>

definition parseFloat :: "string \<Rightarrow> number" where
  "parseFloat s =
     (case str_decimal (dropWhile is_ws s) of None \<Rightarrow> NaN | Some (n, _) \<Rightarrow> n)"

subsection \<open>Arithmetic\<close>

fun js_add :: "number \<Rightarrow> number \<Rightarrow> number" where
  "js_add NaN _ = NaN"
| "js_add _ NaN = NaN"
| "js_add PosInf NegInf = NaN"
| "js_add NegInf PosInf = NaN"
| "js_add PosInf _ = PosInf"
| "js_add NegInf _ = NegInf"
| "js_add _ PosInf = PosInf"
| "js_add _ NegInf = NegInf"
| "js_add (Fin x) (Fin y) = Fin (x + y)"

definition js_sub :: "number \<Rightarrow> number \<Rightarrow> number" where
  "js_sub a b = js_add a (js_neg b)"

text \<open>The sign of a number that is not NaN: \<open>-1\<close>, \<open>0\<close> or \<open>1\<close>.\<close>

fun js_sign :: "number \<Rightarrow> int" where
  "js_sign NaN = 0"
| "js_sign PosInf = 1"
| "js_sign NegInf = - 1"
| "js_sign (Fin x) = (if x < 0 then - 1 else if x = 0 then 0 else 1)"

definition signed_inf :: "int \<Rightarrow> number" where
  "signed_inf s = (if s = 0 then NaN else if s < 0 then NegInf else PosInf)"

fun js_mul :: "number \<Rightarrow> number \<Rightarrow> number" where
  "js_mul NaN _ = NaN"
| "js_mul _ NaN = NaN"
| "js_mul (Fin x) (Fin y) = Fin (x * y)"
| "js_mul a b = signed_inf (js_sign a * js_sign b)"

text \<open>Division; a zero divisor is taken as \<open>+0\<close>.\<close>

fun js_div :: "number \<Rightarrow> number \<Rightarrow> number" where
  "js_div NaN _ = NaN"
| "js_div _ NaN = NaN"
| "js_div (Fin x) (Fin y) = (if y = 0 then signed_inf (js_sign (Fin x)) else Fin (x / y))"
| "js_div (Fin x) _ = Fin 0"
| "js_div a (Fin y) = signed_inf (js_sign a * (if y < 0 then - 1 else 1))"
| "js_div _ _ = NaN"

fun js_ceil :: "number \<Rightarrow> number" where
  "js_ceil (Fin x) = Fin (of_int \<lceil>x\<rceil>)"
| "js_ceil n = n"

text \<open>\<open>a || b\<close> on numbers: \<open>b\<close> when \<open>a\<close> is NaN or zero.\<close>

fun or_default :: "number \<Rightarrow> number \<Rightarrow> number" where
  "or_default NaN d = d"
| "or_default (Fin x) d = (if x = 0 then d else Fin x)"
| "or_default n d = n"

section \<open>Documents, filters and queries\<close>

text \<open>
  A stored value. Object ids and dates are BSON types of their own; a date is its
  number of milliseconds.
\<close>

datatype bson =
    BNull
  | BNum rat
  | BStr string
  | BOid string
  | BDate int
  | BArr "bson list"
  | BDoc "(string \<times> bson) list"

type_synonym doc = "(string \<times> bson) list"

datatype model = ProductModel | CategoryModel | SubcategoryModel

text \<open>A price clause: the optional \<open>$gte\<close> and \<open>$lte\<close> keys of one object.\<close>

record 'a bounds =
  gte :: "'a option"
  lte :: "'a option"

text \<open>
  The \<open>filter\<close> object of \<open>getProducts\<close>: each key is optional; the two id keys hold
  the list of their \<open>$in\<close> clause.
\<close>

record filter_query =
  categoryId :: "string list option"
  subcategoryId :: "string list option"
  price :: "string bounds option"

text \<open>
  The \<open>matchConditions\<close> object of \<open>getProductsByCategory\<close>, with its keys
  \<open>'category.slug'\<close>, \<open>sex\<close>, \<open>'subCategory.slug'\<close> and \<open>price\<close>.
\<close>

record match_conditions =
  category_slug :: string
  sex :: "param option"
  subCategory_slug :: "param option"
  mc_price :: "number bounds option"

datatype cond =
    AnyDoc
  | ProductFilter filter_query
  | MatchConditions match_conditions
  | FieldEq string "bson option"
  | Or "cond list"

datatype proj = Include | Exclude | Path string

datatype stage =
    Match filter_query
  | Lookup string string string string
  | Unwind string
  | Project "(string \<times> proj) list"
  | Sort string int
  | Skip number
  | Limit number

text \<open>
  The database calls this module makes: \<open>aggregate(pipeline)\<close>,
  \<open>countDocuments(cond)\<close>, \<open>find(cond)\<close> with its optional \<open>.limit(n)\<close> and
  \<open>.sort({field: direction})\<close>, and \<open>findById(id)\<close> with its optional \<open>.select(fields)\<close>.
\<close>

datatype query =
    Aggregate model "stage list"
  | CountDocuments model cond
  | Find model cond "nat option" "(string \<times> int) option"
  | FindById model string "string option"

text \<open>The database as the module sees it: each call resolves to a value or rejects.\<close>

record database =
  db_aggregate :: "model \<Rightarrow> stage list \<Rightarrow> error + doc list"
  db_countDocuments :: "model \<Rightarrow> cond \<Rightarrow> error + nat"
  db_find :: "model \<Rightarrow> cond \<Rightarrow> nat option \<Rightarrow> (string \<times> int) option \<Rightarrow> error + doc list"
  db_findById :: "model \<Rightarrow> string \<Rightarrow> string option \<Rightarrow> error + doc option"

text \<open>The search parameters after \<open>getProductsSchema.parse\<close>, as far as the code reads them.\<close>

record search =
  sort_spec :: "string option"
  categories :: "string option"
  subcategories :: "string option"
  price_range :: "string option"

text \<open>
  What the module takes from outside: \<open>connectDb()\<close> and \<open>noStore()\<close> (\<open>None\<close> when
  they return, the thrown error otherwise), the validator \<open>getProductsSchema.parse\<close>,
  the database, and the clock of the cache in seconds.
\<close>

record env =
  connectDb :: "error option"
  noStore :: "error option"
  parse :: "search_params \<Rightarrow> error + search"
  db :: database
  now :: nat

section \<open>getProducts\<close>

record page =
  data :: "doc list"
  pageCount :: number

definition page_limit :: "search_params \<Rightarrow> number" where
  "page_limit input = or_default (to_number (get_prop input ''per_page'')) (Fin 10)"

definition page_number :: "search_params \<Rightarrow> number" where
  "page_number input = or_default (to_number (get_prop input ''page'')) (Fin 1)"

definition page_skip :: "search_params \<Rightarrow> number" where
  "page_skip input = js_mul (js_sub (page_number input) (Fin 1)) (page_limit input)"

text \<open>
  \<open>[sortField, sortOrder] = search.sort?.split('.') ?? ['createdAt', 'desc']\<close>; an
  element the array does not have is \<open>undefined\<close>, which as a computed key is the
  string \<open>undefined\<close>.
\<close>

definition sort_tuple :: "search \<Rightarrow> string \<times> string option" where
  "sort_tuple s =
     (case sort_spec s of
        None \<Rightarrow> (''createdAt'', Some ''desc'')
      | Some str \<Rightarrow>
          (let parts = split CHR ''.'' str
           in ((case at_index parts 0 of None \<Rightarrow> ''undefined'' | Some f \<Rightarrow> f),
               at_index parts 1)))"

definition sort_stage :: "string \<times> string option \<Rightarrow> stage" where
  "sort_stage t = Sort (fst t) (if snd t = Some ''asc'' then 1 else - 1)"

text \<open>\<open>{ ...filter.price }\<close>: the keys of the clause so far, none when there is no clause.\<close>

definition spread :: "'a bounds option \<Rightarrow> 'a bounds" where
  "spread p = (case p of None \<Rightarrow> \<lparr>gte = None, lte = None\<rparr> | Some c \<Rightarrow> c)"

definition build_filter :: "search \<Rightarrow> filter_query" where
  "build_filter s =
     (let categoryIds = (case categories s of None \<Rightarrow> [] | Some str \<Rightarrow> split CHR ''.'' str);
          subcategoryIds =
            (case subcategories s of None \<Rightarrow> [] | Some str \<Rightarrow> split CHR ''.'' str);
          parts = (case price_range s of None \<Rightarrow> [] | Some str \<Rightarrow> split CHR ''-'' str);
          minPrice = at_index parts 0;
          maxPrice = at_index parts 1;
          f0 = \<lparr>categoryId = None, subcategoryId = None, price = None\<rparr>;
          f1 = (if length categoryIds > 0 then f0\<lparr>categoryId := Some categoryIds\<rparr> else f0);
          f2 = (if length subcategoryIds > 0
                then f1\<lparr>subcategoryId := Some subcategoryIds\<rparr> else f1);
          f3 = (case minPrice of
                  None \<Rightarrow> f2
                | Some m \<Rightarrow> f2\<lparr>price := Some ((spread (price f2))\<lparr>gte := Some m\<rparr>)\<rparr>);
          f4 = (case maxPrice of
                  None \<Rightarrow> f3
                | Some m \<Rightarrow> f3\<lparr>price := Some ((spread (price f3))\<lparr>lte := Some m\<rparr>)\<rparr>)
      in f4)"

definition products_pipeline ::
  "filter_query \<Rightarrow> string \<times> string option \<Rightarrow> number \<Rightarrow> number \<Rightarrow> stage list" where
  "products_pipeline f t skip limit =
     [Match f,
      Lookup ''categories'' ''categoryId'' ''_id'' ''category'',
      Unwind ''$category'',
      Lookup ''subcategories'' ''subcategoryId'' ''_id'' ''subcategory'',
      Unwind ''$subcategory'',
      Project
        [(''id'', Path ''$_id''),
         (''name'', Include),
         (''description'', Include),
         (''images'', Include),
         (''category'', Path ''$category.name''),
         (''subcategory'', Path ''$subcategory.name''),
         (''price'', Include),
         (''inventory'', Include),
         (''createdAt'', Include),
         (''updatedAt'', Include)],
      sort_stage t,
      Skip skip,
      Limit limit]"

text \<open>The body of the \<open>try\<close> block: \<open>Inl\<close> is an error thrown inside it.\<close>

definition getProducts_try :: "env \<Rightarrow> search_params \<Rightarrow> error + page" where
  "getProducts_try e input =
     (let limit = page_limit input;
          skip = page_skip input
      in case parse e input of
           Inl err \<Rightarrow> Inl err
         | Inr s \<Rightarrow>
             (let f = build_filter s in
              case db_aggregate (db e) ProductModel
                     (products_pipeline f (sort_tuple s) skip limit) of
                Inl err \<Rightarrow> Inl err
              | Inr products \<Rightarrow>
                  (case db_countDocuments (db e) ProductModel (ProductFilter f) of
                     Inl err \<Rightarrow> Inl err
                   | Inr tot \<Rightarrow>
                       Inr \<lparr>data = products,
                            pageCount = js_ceil (js_div (Fin (of_nat tot)) limit)\<rparr>)))"

definition getProducts :: "env \<Rightarrow> search_params \<Rightarrow> error + page" where
  "getProducts e input =
     (case connectDb e of
        Some err \<Rightarrow> Inl err
      | None \<Rightarrow>
          (case noStore e of
             Some err \<Rightarrow> Inl err
           | None \<Rightarrow>
               (case getProducts_try e input of
                  Inl err \<Rightarrow> Inr \<lparr>data = [], pageCount = Fin 0\<rparr>
                | Inr r \<Rightarrow> Inr r)))"

section \<open>The cache of the read functions\<close>

text \<open>
  Modelled from the spec: the response helper \<open>ApiResponse\<close>, imported from
  \<open>@/helpers/api-response\<close>, a module that is not among the sources.
  \<open>ApiResponse.success(message, data)\<close> is the envelope
  \<open>{success: true, message, data}\<close> and \<open>ApiResponse.failure(message)\<close> is
  \<open>{success: false, message}\<close>.
\<close>

datatype 'a api_response = Success string 'a | Failure string

text \<open>What a read callback resolves to, and so what the cache holds.\<close>

datatype cached =
    Docs "doc list"
  | Count nat
  | OneDoc "doc option"
  | Response "doc list api_response"

text \<open>
  The framework keys an entry by the callback and by the key parts given with it; the
  seven callbacks of this module are told apart by the function they are written in.
\<close>

datatype site =
    FeaturedProducts
  | ProductCountByCategory
  | Categories
  | ProductById
  | RelatedProducts
  | ProductsByCategory
  | SubCategoriesOfCategory

record entry =
  cached_value :: cached
  stored_at :: nat
  entry_tags :: "string list"

text \<open>The state the read functions share: the cache store and the queries sent so far.\<close>

record world =
  store :: "site \<times> string list \<Rightarrow> entry option"
  queries :: "query list"

type_synonym 'a action = "world \<Rightarrow> (error + 'a) \<times> world"

text \<open>\<open>cache(callback, keyParts, {revalidate, tags})\<close>: the wrapped function.\<close>

record cached_fn =
  callback :: "cached action"
  call_site :: site
  keyParts :: "string list"
  revalidate :: nat
  tags :: "string list"

definition fresh :: "nat \<Rightarrow> nat \<Rightarrow> entry \<Rightarrow> bool" where
  "fresh clock window en = (clock \<le> stored_at en + window)"

text \<open>
  Calling the wrapped function at time \<open>clock\<close>: an entry of its key that is within the
  revalidation window is returned and the callback is not run; otherwise the callback
  runs, its value is stored under the key with the tags, and an error it throws is
  thrown on with nothing stored.
\<close>

definition invoke :: "nat \<Rightarrow> cached_fn \<Rightarrow> cached action" where
  "invoke clock fn w =
     (let key = (call_site fn, keyParts fn);
          run = (case callback fn w of
                   (Inl err, w1) \<Rightarrow> (Inl err, w1)
                 | (Inr v, w1) \<Rightarrow>
                     (Inr v,
                      w1\<lparr>store := (store w1)
                            (key \<mapsto> \<lparr>cached_value = v, stored_at = clock,
                                     entry_tags = tags fn\<rparr>)\<rparr>))
      in case store w key of
           None \<Rightarrow> run
         | Some en \<Rightarrow> if fresh clock (revalidate fn) en then (Inr (cached_value en), w) else run)"

text \<open>\<open>await connectDb()\<close> before the rest of a function.\<close>

definition connected :: "env \<Rightarrow> 'a action \<Rightarrow> 'a action" where
  "connected e act w = (case connectDb e of Some err \<Rightarrow> (Inl err, w) | None \<Rightarrow> act w)"

subsection \<open>Database calls of the callbacks\<close>

definition sent :: "query \<Rightarrow> world \<Rightarrow> world" where
  "sent q w = w\<lparr>queries := queries w @ [q]\<rparr>"

definition find_docs ::
  "env \<Rightarrow> model \<Rightarrow> cond \<Rightarrow> nat option \<Rightarrow> (string \<times> int) option \<Rightarrow> (doc list) action" where
  "find_docs e m c n srt w = (db_find (db e) m c n srt, sent (Find m c n srt) w)"

definition find_by_id :: "env \<Rightarrow> model \<Rightarrow> string \<Rightarrow> string option \<Rightarrow> (doc option) action" where
  "find_by_id e m i sel w = (db_findById (db e) m i sel, sent (FindById m i sel) w)"

definition count_documents :: "env \<Rightarrow> model \<Rightarrow> cond \<Rightarrow> nat action" where
  "count_documents e m c w = (db_countDocuments (db e) m c, sent (CountDocuments m c) w)"

definition aggregate :: "env \<Rightarrow> model \<Rightarrow> stage list \<Rightarrow> (doc list) action" where
  "aggregate e m p w = (db_aggregate (db e) m p, sent (Aggregate m p) w)"

text \<open>A callback that returns the result of one database call.\<close>

definition returning :: "('a \<Rightarrow> cached) \<Rightarrow> 'a action \<Rightarrow> cached action" where
  "returning wrap act w =
     (case act w of (Inl err, w1) \<Rightarrow> (Inl err, w1) | (Inr v, w1) \<Rightarrow> (Inr (wrap v), w1))"

text \<open>
  A callback whose body is \<open>try { return ApiResponse.success(message, await read) }
  catch (err) { return ApiResponse.failure(err.message) }\<close>.
\<close>

definition enveloped :: "string \<Rightarrow> (doc list) action \<Rightarrow> cached action" where
  "enveloped message act w =
     (case act w of
        (Inl (Error m), w1) \<Rightarrow> (Inr (Response (Failure m)), w1)
      | (Inr v, w1) \<Rightarrow> (Inr (Response (Success message v)), w1))"

section \<open>The cached read functions\<close>

definition getFeaturedProducts_cache :: "env \<Rightarrow> cached_fn" where
  "getFeaturedProducts_cache e =
     \<lparr>callback = returning Docs
         (find_docs e ProductModel AnyDoc (Some 8) (Some (''createdAt'', - 1))),
      call_site = FeaturedProducts,
      keyParts = [''featured-products''],
      revalidate = 3600,
      tags = [''featured-products'']\<rparr>"

definition getFeaturedProducts :: "env \<Rightarrow> cached action" where
  "getFeaturedProducts e = connected e (invoke (now e) (getFeaturedProducts_cache e))"

definition getProductCountByCategory_cache :: "env \<Rightarrow> string \<Rightarrow> cached_fn" where
  "getProductCountByCategory_cache e categoryId' =
     \<lparr>callback = returning Count
         (count_documents e ProductModel (FieldEq ''category.id'' (Some (BStr categoryId')))),
      call_site = ProductCountByCategory,
      keyParts = [''product-count-'' @ categoryId'],
      revalidate = 3600,
      tags = [''product-count-'' @ categoryId']\<rparr>"

definition getProductCountByCategory :: "env \<Rightarrow> string \<Rightarrow> cached action" where
  "getProductCountByCategory e categoryId' =
     connected e (invoke (now e) (getProductCountByCategory_cache e categoryId'))"

definition categories_pipeline :: "stage list" where
  "categories_pipeline =
     [Project
        [(''_id'', Exclude),
         (''id'', Include),
         (''name'', Include),
         (''slug'', Include),
         (''description'', Include),
         (''image'', Include)],
      Sort ''name'' (- 1)]"

definition getCategories_cache :: "env \<Rightarrow> cached_fn" where
  "getCategories_cache e =
     \<lparr>callback = returning Docs (aggregate e CategoryModel categories_pipeline),
      call_site = Categories,
      keyParts = [''categories''],
      revalidate = 3600,
      tags = [''categories'']\<rparr>"

definition getCategories :: "env \<Rightarrow> cached action" where
  "getCategories e = connected e (invoke (now e) (getCategories_cache e))"

definition getProductById_cache :: "env \<Rightarrow> string \<Rightarrow> cached_fn" where
  "getProductById_cache e productId =
     \<lparr>callback = returning OneDoc (find_by_id e ProductModel productId None),
      call_site = ProductById,
      keyParts = [''product-'' @ productId],
      revalidate = 3600,
      tags = [''product-'' @ productId]\<rparr>"

definition getProductById :: "env \<Rightarrow> string \<Rightarrow> cached action" where
  "getProductById e productId = connected e (invoke (now e) (getProductById_cache e productId))"

text \<open>
  The callback of \<open>getRelatedProducts\<close>: the product is read first; \<open>null\<close> returns
  the empty list, and only a product that was found leads to the \<open>$or\<close> query on
  its two ids (\<open>undefined\<close>, here \<open>None\<close>, for an id the document does not have).
\<close>

definition getRelatedProducts_callback :: "env \<Rightarrow> string \<Rightarrow> cached action" where
  "getRelatedProducts_callback e productId w =
     (case find_by_id e ProductModel productId (Some ''categoryId subCategoryId'') w of
        (Inl err, w1) \<Rightarrow> (Inl err, w1)
      | (Inr None, w1) \<Rightarrow> (Inr (Docs []), w1)
      | (Inr (Some product), w1) \<Rightarrow>
          returning Docs
            (find_docs e ProductModel
               (Or [FieldEq ''categoryId'' (map_of product ''categoryId''),
                    FieldEq ''subCategoryId'' (map_of product ''subCategoryId'')])
               (Some 4) (Some (''createdAt'', - 1)))
            w1)"

definition getRelatedProducts_cache :: "env \<Rightarrow> string \<Rightarrow> cached_fn" where
  "getRelatedProducts_cache e productId =
     \<lparr>callback = getRelatedProducts_callback e productId,
      call_site = RelatedProducts,
      keyParts = [''related-products-'' @ productId],
      revalidate = 3600,
      tags = [''related-products-'' @ productId]\<rparr>"

definition getRelatedProducts :: "env \<Rightarrow> string \<Rightarrow> cached action" where
  "getRelatedProducts e productId =
     connected e (invoke (now e) (getRelatedProducts_cache e productId))"

subsection \<open>getProductsByCategory\<close>

definition build_match_conditions :: "string \<Rightarrow> search_params \<Rightarrow> match_conditions" where
  "build_match_conditions category searchParams =
     (let sex' = get_prop searchParams ''sex'';
          subcategory = get_prop searchParams ''subcategory'';
          gte' = get_prop searchParams ''gte'';
          lte' = get_prop searchParams ''lte'';
          m0 = \<lparr>category_slug = category, sex = None, subCategory_slug = None,
                mc_price = None\<rparr>;
          m1 = (if truthy sex' then m0\<lparr>sex := Some sex'\<rparr> else m0);
          m2 = (if truthy subcategory then m1\<lparr>subCategory_slug := Some subcategory\<rparr> else m1);
          m3 = (if truthy gte' \<or> truthy lte' then
                  (let p0 = \<lparr>gte = None, lte = None\<rparr>;
                       p1 = (if truthy gte'
                             then p0\<lparr>gte := Some (parseFloat (to_string gte'))\<rparr> else p0);
                       p2 = (if truthy lte'
                             then p1\<lparr>lte := Some (parseFloat (to_string lte'))\<rparr> else p1)
                   in m2\<lparr>mc_price := Some p2\<rparr>)
                else m2)
      in m3)"

text \<open>\<open>${v || ''}\<close> inside a template string.\<close>

definition or_empty :: "param \<Rightarrow> string" where
  "or_empty v = (if truthy v then to_string v else [])"

definition cacheKey :: "string \<Rightarrow> search_params \<Rightarrow> string" where
  "cacheKey category searchParams =
     ''products-'' @ category @ ''-'' @ or_empty (get_prop searchParams ''sex'')
       @ ''-'' @ or_empty (get_prop searchParams ''subcategory'')
       @ ''-'' @ or_empty (get_prop searchParams ''gte'')
       @ ''-'' @ or_empty (get_prop searchParams ''lte'')"

definition getProductsByCategory_cache :: "env \<Rightarrow> string \<Rightarrow> search_params \<Rightarrow> cached_fn" where
  "getProductsByCategory_cache e category searchParams =
     \<lparr>callback = enveloped (''Successfully fetched products for category: '' @ category)
         (find_docs e ProductModel
            (MatchConditions (build_match_conditions category searchParams))
            None (Some (''createdAt'', - 1))),
      call_site = ProductsByCategory,
      keyParts = [cacheKey category searchParams],
      revalidate = 3600,
      tags = (''products-'' @ category)
             # map (\<lambda>(key, v). ''products-'' @ category @ ''-'' @ key @ ''-'' @ to_string v)
                 searchParams\<rparr>"

definition getProductsByCategory :: "env \<Rightarrow> string \<Rightarrow> search_params \<Rightarrow> cached action" where
  "getProductsByCategory e category searchParams =
     connected e (invoke (now e) (getProductsByCategory_cache e category searchParams))"

subsection \<open>getSubCategoriesOfCategory\<close>

definition getSubCategoriesOfCategory_cache :: "env \<Rightarrow> string \<Rightarrow> cached_fn" where
  "getSubCategoriesOfCategory_cache e slug =
     \<lparr>callback = enveloped ''Fetched subcategories!''
         (find_docs e SubcategoryModel (FieldEq ''category.slug'' (Some (BStr slug)))
            None None),
      call_site = SubCategoriesOfCategory,
      keyParts = [''subcategories''],
      revalidate = 3600,
      tags = [''subcategories'']\<rparr>"

definition getSubCategoriesOfCategory :: "env \<Rightarrow> string \<Rightarrow> cached action" where
  "getSubCategoriesOfCategory e slug =
     connected e (invoke (now e) (getSubCategoriesOfCategory_cache e slug))"

subsection \<open>The seven read functions as one family\<close>

datatype reader =
    GetFeaturedProducts
  | GetProductCountByCategory string
  | GetCategories
  | GetProductById string
  | GetRelatedProducts string
  | GetProductsByCategory string search_params
  | GetSubCategoriesOfCategory string

fun cache_of :: "env \<Rightarrow> reader \<Rightarrow> cached_fn" where
  "cache_of e GetFeaturedProducts = getFeaturedProducts_cache e"
| "cache_of e (GetProductCountByCategory c) = getProductCountByCategory_cache e c"
| "cache_of e GetCategories = getCategories_cache e"
| "cache_of e (GetProductById p) = getProductById_cache e p"
| "cache_of e (GetRelatedProducts p) = getRelatedProducts_cache e p"
| "cache_of e (GetProductsByCategory c sp) = getProductsByCategory_cache e c sp"
| "cache_of e (GetSubCategoriesOfCategory s) = getSubCategoriesOfCategory_cache e s"

fun call :: "env \<Rightarrow> reader \<Rightarrow> cached action" where
  "call e GetFeaturedProducts = getFeaturedProducts e"
| "call e (GetProductCountByCategory c) = getProductCountByCategory e c"
| "call e GetCategories = getCategories e"
| "call e (GetProductById p) = getProductById e p"
| "call e (GetRelatedProducts p) = getRelatedProducts e p"
| "call e (GetProductsByCategory c sp) = getProductsByCategory e c sp"
| "call e (GetSubCategoriesOfCategory s) = getSubCategoriesOfCategory e s"

text \<open>The key under which a call looks its entry up.\<close>

definition cache_key :: "env \<Rightarrow> reader \<Rightarrow> site \<times> string list" where
  "cache_key e r = (call_site (cache_of e r), keyParts (cache_of e r))"

text \<open>The queries a step sent: those of the later state that the earlier one lacks.\<close>

definition sent_between :: "world \<Rightarrow> world \<Rightarrow> query list" where
  "sent_between w w1 = drop (length (queries w)) (queries w1)"

text \<open>No entry of the key is within the window: the call will run the callback.\<close>

definition miss :: "env \<Rightarrow> reader \<Rightarrow> world \<Rightarrow> bool" where
  "miss e r w =
     (case store w (cache_key e r) of
        None \<Rightarrow> True
      | Some en \<Rightarrow> \<not> fresh (now e) (revalidate (cache_of e r)) en)"

text \<open>
  Every entry of the two envelope-returning functions holds an envelope, as every entry
  written by their callbacks does.
\<close>

definition envelopes_only :: "world \<Rightarrow> bool" where
  "envelopes_only w =
     (\<forall>k en. store w k = Some en \<longrightarrow>
        fst k \<in> {ProductsByCategory, SubCategoriesOfCategory} \<longrightarrow>
        (\<exists>r. cached_value en = Response r))"

section \<open>A reference execution of the aggregation stages\<close>

text \<open>
  The stages of the pipelines above as the database documents them, for documents in
  which the values a stage compares are not arrays. \<open>None\<close> stands for a stage the
  server rejects and for one outside this fragment.
\<close>

fun get_path :: "string list \<Rightarrow> bson \<Rightarrow> bson option" where
  "get_path [] v = Some v"
| "get_path (k # ks) (BDoc d) = (case map_of d k of None \<Rightarrow> None | Some v \<Rightarrow> get_path ks v)"
| "get_path (k # ks) v = None"

fun crosses_array :: "string list \<Rightarrow> bson \<Rightarrow> bool" where
  "crosses_array ks (BArr xs) = True"
| "crosses_array (k # ks) (BDoc d) =
     (case map_of d k of None \<Rightarrow> False | Some v \<Rightarrow> crosses_array ks v)"
| "crosses_array ks v = False"

text \<open>A dotted path that reaches no array in the document, and the value read there
  (\<open>null\<close> for a missing one).\<close>

definition readable :: "string \<Rightarrow> doc \<Rightarrow> bool" where
  "readable path d = (\<not> crosses_array (split CHR ''.'' path) (BDoc d))"

definition value_at :: "string \<Rightarrow> doc \<Rightarrow> bson" where
  "value_at path d =
     (case get_path (split CHR ''.'' path) (BDoc d) of None \<Rightarrow> BNull | Some v \<Rightarrow> v)"

definition set_field :: "string \<Rightarrow> bson \<Rightarrow> doc \<Rightarrow> doc" where
  "set_field k v d =
     (if k \<in> set (map fst d) then map (\<lambda>(k1, v1). if k1 = k then (k1, v) else (k1, v1)) d
      else d @ [(k, v)])"

text \<open>Binary comparison of strings, and the order of values of the scalar types.\<close>

fun str_le :: "string \<Rightarrow> string \<Rightarrow> bool" where
  "str_le [] ys = True"
| "str_le (x # xs) [] = False"
| "str_le (x # xs) (y # ys) =
     ((of_char x :: nat) < of_char y \<or> (x = y \<and> str_le xs ys))"

fun rank :: "bson \<Rightarrow> nat" where
  "rank BNull = 1"
| "rank (BNum x) = 2"
| "rank (BStr x) = 3"
| "rank (BDoc x) = 4"
| "rank (BArr x) = 5"
| "rank (BOid x) = 7"
| "rank (BDate x) = 9"

fun bson_le :: "bson \<Rightarrow> bson \<Rightarrow> bool" where
  "bson_le (BNum x) (BNum y) = (x \<le> y)"
| "bson_le (BStr x) (BStr y) = str_le x y"
| "bson_le (BOid x) (BOid y) = str_le x y"
| "bson_le (BDate x) (BDate y) = (x \<le> y)"
| "bson_le a b = (rank a \<le> rank b)"

fun scalar :: "bson \<Rightarrow> bool" where
  "scalar (BArr xs) = False"
| "scalar (BDoc d) = False"
| "scalar v = True"

subsection \<open>$match with the filter of getProducts\<close>

definition in_clause :: "string \<Rightarrow> string list option \<Rightarrow> doc \<Rightarrow> bool" where
  "in_clause k ids d =
     (case ids of
        None \<Rightarrow> True
      | Some xs \<Rightarrow> (case map_of d k of None \<Rightarrow> False | Some v \<Rightarrow> v \<in> set (map BStr xs)))"

text \<open>A bound that is a string holds of string values only.\<close>

definition range_clause :: "string bounds option \<Rightarrow> doc \<Rightarrow> bool" where
  "range_clause p d =
     (case p of
        None \<Rightarrow> True
      | Some b \<Rightarrow>
          if gte b = None \<and> lte b = None then map_of d ''price'' = Some (BDoc [])
          else (case map_of d ''price'' of
                  Some (BStr x) \<Rightarrow>
                    (case gte b of None \<Rightarrow> True | Some lo \<Rightarrow> str_le lo x)
                    \<and> (case lte b of None \<Rightarrow> True | Some hi \<Rightarrow> str_le x hi)
                | _ \<Rightarrow> False))"

definition matches :: "filter_query \<Rightarrow> doc \<Rightarrow> bool" where
  "matches f d =
     (in_clause ''categoryId'' (categoryId f) d
      \<and> in_clause ''subcategoryId'' (subcategoryId f) d
      \<and> range_clause (price f) d)"

definition filtered_fields :: "filter_query \<Rightarrow> string list" where
  "filtered_fields f =
     (if categoryId f = None then [] else [''categoryId''])
     @ (if subcategoryId f = None then [] else [''subcategoryId''])
     @ (if price f = None then [] else [''price''])"

subsection \<open>The stages\<close>

definition lookup_stage ::
  "doc list \<Rightarrow> string \<Rightarrow> string \<Rightarrow> string \<Rightarrow> doc list \<Rightarrow> doc list option" where
  "lookup_stage foreign localField foreignField as ds =
     (if (\<forall>d \<in> set ds. readable localField d \<and> scalar (value_at localField d))
         \<and> (\<forall>f \<in> set foreign. readable foreignField f \<and> scalar (value_at foreignField f))
      then Some (map (\<lambda>d. set_field as
                        (BArr (map BDoc
                           (filter (\<lambda>f. value_at foreignField f = value_at localField d)
                              foreign))) d) ds)
      else None)"

definition unwind_doc :: "string \<Rightarrow> doc \<Rightarrow> doc list" where
  "unwind_doc k d =
     (case map_of d k of
        None \<Rightarrow> []
      | Some BNull \<Rightarrow> []
      | Some (BArr xs) \<Rightarrow> map (\<lambda>x. set_field k x d) xs
      | Some v \<Rightarrow> [d])"

definition unwind_stage :: "string \<Rightarrow> doc list \<Rightarrow> doc list option" where
  "unwind_stage path ds =
     (case path of
        [] \<Rightarrow> None
      | c # k \<Rightarrow>
          if c = CHR ''$'' \<and> k \<noteq> [] \<and> CHR ''.'' \<notin> set k
          then Some (concat (map (unwind_doc k) ds)) else None)"

text \<open>
  A projection with inclusions and computed fields: \<open>_id\<close> unless it is excluded, the
  included fields the document has, and each computed field whose path has a value.
\<close>

definition project_doc :: "(string \<times> proj) list \<Rightarrow> doc \<Rightarrow> doc" where
  "project_doc specs d =
     filter (\<lambda>(k, v). (k = ''_id'' \<and> (''_id'', Exclude) \<notin> set specs)
                      \<or> (k, Include) \<in> set specs) d
     @ concat (map (\<lambda>(k, p).
         (case p of
            Path ref \<Rightarrow>
              (case get_path (split CHR ''.'' (tl ref)) (BDoc d) of
                 None \<Rightarrow> []
               | Some v \<Rightarrow> [(k, v)])
          | _ \<Rightarrow> [])) specs)"

definition project_ok :: "(string \<times> proj) list \<Rightarrow> doc \<Rightarrow> bool" where
  "project_ok specs d =
     (\<forall>(k, p) \<in> set specs.
        (case p of
           Include \<Rightarrow> True
         | Exclude \<Rightarrow> k = ''_id''
         | Path ref \<Rightarrow> take 1 ref = ''$'' \<and> length ref > 1 \<and> readable (tl ref) d))"

definition project_stage :: "(string \<times> proj) list \<Rightarrow> doc list \<Rightarrow> doc list option" where
  "project_stage specs ds =
     (if \<forall>d \<in> set ds. project_ok specs d then Some (map (project_doc specs) ds) else None)"

text \<open>A stable insertion sort on the key of a field, ascending or descending.\<close>

fun insert_by :: "('a \<Rightarrow> 'a \<Rightarrow> bool) \<Rightarrow> 'a \<Rightarrow> 'a list \<Rightarrow> 'a list" where
  "insert_by le x [] = [x]"
| "insert_by le x (y # ys) = (if le x y then x # y # ys else y # insert_by le x ys)"

definition sort_by :: "('a \<Rightarrow> 'a \<Rightarrow> bool) \<Rightarrow> 'a list \<Rightarrow> 'a list" where
  "sort_by le xs = foldr (insert_by le) xs []"

definition sort_stage_run :: "string \<Rightarrow> int \<Rightarrow> doc list \<Rightarrow> doc list option" where
  "sort_stage_run field dir ds =
     (if field \<noteq> [] \<and> (dir = 1 \<or> dir = - 1)
         \<and> (\<forall>d \<in> set ds. readable field d \<and> scalar (value_at field d))
      then Some (sort_by (\<lambda>a b. if dir = 1 then bson_le (value_at field a) (value_at field b)
                                else bson_le (value_at field b) (value_at field a)) ds)
      else None)"

text \<open>\<open>$skip\<close> takes a whole number that is not negative, \<open>$limit\<close> a positive one.\<close>

definition whole :: "number \<Rightarrow> nat option" where
  "whole n =
     (case n of
        Fin x \<Rightarrow> if 0 \<le> x \<and> x < 2 ^ 63 \<and> of_int \<lfloor>x\<rfloor> = x then Some (nat \<lfloor>x\<rfloor>) else None
      | _ \<Rightarrow> None)"

fun run_stage :: "(string \<Rightarrow> doc list) \<Rightarrow> stage \<Rightarrow> doc list \<Rightarrow> doc list option" where
  "run_stage colls (Match f) ds =
     (if \<forall>d \<in> set ds. \<forall>k \<in> set (filtered_fields f). readable k d
      then Some (filter (matches f) ds) else None)"
| "run_stage colls (Lookup from localField foreignField as) ds =
     lookup_stage (colls from) localField foreignField as ds"
| "run_stage colls (Unwind path) ds = unwind_stage path ds"
| "run_stage colls (Project specs) ds = project_stage specs ds"
| "run_stage colls (Sort field dir) ds = sort_stage_run field dir ds"
| "run_stage colls (Skip n) ds = (case whole n of None \<Rightarrow> None | Some k \<Rightarrow> Some (drop k ds))"
| "run_stage colls (Limit n) ds =
     (case whole n of None \<Rightarrow> None | Some k \<Rightarrow> if k = 0 then None else Some (take k ds))"

fun run_pipeline :: "(string \<Rightarrow> doc list) \<Rightarrow> stage list \<Rightarrow> doc list \<Rightarrow> doc list option" where
  "run_pipeline colls [] ds = Some ds"
| "run_pipeline colls (s # ss) ds =
     (case run_stage colls s ds of None \<Rightarrow> None | Some ds1 \<Rightarrow> run_pipeline colls ss ds1)"

subsection \<open>A catalog of two products\<close>

definition shop_product :: "string \<Rightarrow> string \<Rightarrow> rat \<Rightarrow> int \<Rightarrow> doc" where
  "shop_product i name p created =
     [(''_id'', BOid i),
      (''name'', BStr name),
      (''description'', BStr []),
      (''images'', BArr []),
      (''price'', BNum p),
      (''inventory'', BNum 5),
      (''categoryId'', BOid ''c1''),
      (''subcategoryId'', BOid ''s1''),
      (''createdAt'', BDate created),
      (''updatedAt'', BDate created)]"


definition shop_products :: "doc list" where
  "shop_products = [shop_product ''p2'' ''Boots'' 20 2000, shop_product ''p1'' ''Sandals'' 10 1000]"

definition shop_collections :: "string \<Rightarrow> doc list" where
  "shop_collections name =
     (if name = ''categories''
      then [[(''_id'', BOid ''c1''), (''name'', BStr ''Shoes''), (''slug'', BStr ''shoes'')]]
      else if name = ''subcategories''
      then [[(''_id'', BOid ''s1''), (''name'', BStr ''Outdoor''), (''slug'', BStr ''outdoor''),
             (''category'', BDoc [(''slug'', BStr ''shoes'')])]]
      else [])"

subsection \<open>find and findById on the catalog\<close>

text \<open>
  Conditions that compare a field with a value, their disjunctions and the empty
  condition; the two filter objects are left to the server.
\<close>

fun cond_ok :: "cond \<Rightarrow> doc \<Rightarrow> bool" where
  "cond_ok AnyDoc d = True"
| "cond_ok (FieldEq path v) d = (readable path d \<and> scalar (value_at path d))"
| "cond_ok (Or cs) d = (\<forall>c \<in> set cs. cond_ok c d)"
| "cond_ok c d = False"

fun holds :: "cond \<Rightarrow> doc \<Rightarrow> bool" where
  "holds AnyDoc d = True"
| "holds (FieldEq path v) d = (value_at path d = (case v of None \<Rightarrow> BNull | Some x \<Rightarrow> x))"
| "holds (Or cs) d = (\<exists>c \<in> set cs. holds c d)"
| "holds c d = False"

definition find_run ::
  "doc list \<Rightarrow> cond \<Rightarrow> nat option \<Rightarrow> (string \<times> int) option \<Rightarrow> doc list option" where
  "find_run ds c n srt =
     (if \<forall>d \<in> set ds. cond_ok c d then
        (case (case srt of
                 None \<Rightarrow> Some (filter (holds c) ds)
               | Some (field, dir) \<Rightarrow> sort_stage_run field dir (filter (holds c) ds)) of
           None \<Rightarrow> None
         | Some found \<Rightarrow> Some (case n of None \<Rightarrow> found | Some k \<Rightarrow> take k found))
      else None)"

text \<open>\<open>.select('a b')\<close> keeps \<open>_id\<close> and the named fields.\<close>

definition select_fields :: "string option \<Rightarrow> doc \<Rightarrow> doc" where
  "select_fields sel d =
     (case sel of
        None \<Rightarrow> d
      | Some names \<Rightarrow> filter (\<lambda>(k, v). k = ''_id'' \<or> k \<in> set (split CHR '' '' names)) d)"

definition shop_docs :: "model \<Rightarrow> doc list" where
  "shop_docs m =
     (case m of
        ProductModel \<Rightarrow> shop_products
      | CategoryModel \<Rightarrow> shop_collections ''categories''
      | SubcategoryModel \<Rightarrow> shop_collections ''subcategories'')"

text \<open>
  The database of the catalog: aggregations, finds and reads by id run by the
  reference execution, and the count of the filter without clauses, which every
  product matches.
\<close>

definition shop_db :: database where
  "shop_db =
     \<lparr>db_aggregate = (\<lambda>m p.
         case run_pipeline shop_collections p (shop_docs m) of
           None \<Rightarrow> Inl (Error ''aggregate rejected'')
         | Some ds \<Rightarrow> Inr ds),
      db_countDocuments = (\<lambda>m c.
         if m = ProductModel
            \<and> c = ProductFilter \<lparr>categoryId = None, subcategoryId = None, price = None\<rparr>
         then Inr (length shop_products)
         else Inl (Error ''count rejected'')),
      db_find = (\<lambda>m c n srt.
         case find_run (shop_docs m) c n srt of
           None \<Rightarrow> Inl (Error ''find rejected'')
         | Some ds \<Rightarrow> Inr ds),
      db_findById = (\<lambda>m i sel.
         Inr (map_option (select_fields sel)
                (find (\<lambda>d. map_of d ''_id'' = Some (BOid i)) (shop_docs m))))\<rparr>"

text \<open>A database that rejects every call.\<close>

definition down_db :: database where
  "down_db =
     \<lparr>db_aggregate = (\<lambda>m p. Inl (Error ''connection lost'')),
      db_countDocuments = (\<lambda>m c. Inl (Error ''connection lost'')),
      db_find = (\<lambda>m c n srt. Inl (Error ''connection lost'')),
      db_findById = (\<lambda>m i sel. Inl (Error ''connection lost''))\<rparr>"

text \<open>A validator that passes the \<open>sort\<close> key on when it is a string and rejects an
  array there.\<close>

definition sort_only :: "search_params \<Rightarrow> error + search" where
  "sort_only input =
     (case get_prop input ''sort'' of
        Arr xs \<Rightarrow> Inl (Error ''Expected string, received array'')
      | Str s \<Rightarrow> Inr \<lparr>sort_spec = Some s, categories = None, subcategories = None,
                     price_range = None\<rparr>
      | Undefined \<Rightarrow> Inr \<lparr>sort_spec = None, categories = None, subcategories = None,
                         price_range = None\<rparr>)"

definition shop_env :: "nat \<Rightarrow> env" where
  "shop_env clock =
     \<lparr>connectDb = None, noStore = None, parse = sort_only, db = shop_db, now = clock\<rparr>"

definition down_env :: "nat \<Rightarrow> env" where
  "down_env clock =
     \<lparr>connectDb = None, noStore = None, parse = sort_only, db = down_db, now = clock\<rparr>"

definition empty_world :: world where
  "empty_world = \<lparr>store = Map.empty, queries = []\<rparr>"

section \<open>Properties of the string helpers\<close>

text \<open>
  The first part of a split is the text before the first separator; there is a second
  part exactly when the string has a separator, and it is the text between the first
  separator and the next.
\<close>

lemma split_acc_parts:
  "split_acc sep acc s =
     (rev acc @ takeWhile (\<lambda>c. c \<noteq> sep) s)
     # (if sep \<in> set s then split_acc sep [] (tl (dropWhile (\<lambda>c. c \<noteq> sep) s)) else [])"
  by (induction s arbitrary: acc) auto

lemma split_first: "at_index (split sep s) 0 = Some (takeWhile (\<lambda>c. c \<noteq> sep) s)"
  unfolding split_def by (subst split_acc_parts) simp


lemma split_not_empty: "split sep s \<noteq> []"
  unfolding split_def by (subst split_acc_parts) simp

section \<open>The filter, the page and the sort stage of getProducts\<close>







text \<open>An error of \<open>connectDb()\<close> or \<open>noStore()\<close>, which run before the \<open>try\<close>
  block, is thrown on to the caller.\<close>

lemma getProducts_prelude_error:
  "connectDb e = Some err \<or> (connectDb e = None \<and> noStore e = Some err) \<Longrightarrow>
   getProducts e input = Inl err"
  by (auto simp: getProducts_def)

text \<open>The \<open>try\<close> block throws exactly when the validator, the aggregation or the
  count does.\<close>

lemma getProducts_try_throws:
  "getProducts_try e input = Inl err \<longleftrightarrow>
     parse e input = Inl err
     \<or> (\<exists>s. parse e input = Inr s
            \<and> (db_aggregate (db e) ProductModel
                  (products_pipeline (build_filter s) (sort_tuple s) (page_skip input)
                     (page_limit input)) = Inl err
                \<or> (\<exists>products.
                      db_aggregate (db e) ProductModel
                        (products_pipeline (build_filter s) (sort_tuple s) (page_skip input)
                           (page_limit input)) = Inr products
                      \<and> db_countDocuments (db e) ProductModel (ProductFilter (build_filter s))
                          = Inl err)))"
  by (auto simp: getProducts_try_def Let_def split: sum.splits)



text \<open>
  C6. Without a \<open>sort\<close> parameter the sort stage of the pipeline is \<open>createdAt\<close>
  descending; any direction other than \<open>asc\<close> sorts descending on the named field,
  which is the text of the parameter before its first dot.
\<close>

theorem getProducts_sort_stage:
  "(sort_spec s = None \<longrightarrow> sort_stage (sort_tuple s) = Sort ''createdAt'' (- 1))
   \<and> (snd (sort_tuple s) \<noteq> Some ''asc'' \<longrightarrow>
        sort_stage (sort_tuple s) = Sort (fst (sort_tuple s)) (- 1))
   \<and> fst (sort_tuple s) =
        (case sort_spec s of
           None \<Rightarrow> ''createdAt''
         | Some str \<Rightarrow> takeWhile (\<lambda>c. c \<noteq> CHR ''.'') str)
   \<and> products_pipeline f (sort_tuple s) skp lmt ! 6 = sort_stage (sort_tuple s)"
  using split_first [of "CHR ''.''"]
  by (auto simp: sort_tuple_def sort_stage_def products_pipeline_def Let_def
        split: option.splits)

text \<open>No parameter, and the parameter \<open>price.down\<close>.\<close>

theorem getProducts_sort_stage_witness:
  "sort_spec \<lparr>sort_spec = None, categories = None, subcategories = None, price_range = None\<rparr>
     = None
   \<and> sort_stage (sort_tuple \<lparr>sort_spec = None, categories = None, subcategories = None,
                              price_range = None\<rparr>) = Sort ''createdAt'' (- 1)
   \<and> snd (sort_tuple \<lparr>sort_spec = Some ''price.down'', categories = None,
                       subcategories = None, price_range = None\<rparr>) \<noteq> Some ''asc''
   \<and> sort_stage (sort_tuple \<lparr>sort_spec = Some ''price.down'', categories = None,
                              subcategories = None, price_range = None\<rparr>) = Sort ''price'' (- 1)"
  using getProducts_sort_stage
          [of "\<lparr>sort_spec = None, categories = None, subcategories = None, price_range = None\<rparr>"]
        getProducts_sort_stage
          [of "\<lparr>sort_spec = Some ''price.down'', categories = None, subcategories = None,
                price_range = None\<rparr>"]
  by (simp add: sort_tuple_def split_def)



section \<open>The cache\<close>

text \<open>A wrapped function returns a fresh entry as it is and runs its callback otherwise.\<close>

lemma invoke_fresh:
  "store w (call_site fn, keyParts fn) = Some en \<Longrightarrow> fresh clock (revalidate fn) en \<Longrightarrow>
   invoke clock fn w = (Inr (cached_value en), w)"
  by (simp add: invoke_def Let_def)

lemma invoke_stale:
  "(case store w (call_site fn, keyParts fn) of
      None \<Rightarrow> True | Some en \<Rightarrow> \<not> fresh clock (revalidate fn) en) \<Longrightarrow>
   invoke clock fn w =
     (case callback fn w of
        (Inl err, w1) \<Rightarrow> (Inl err, w1)
      | (Inr v, w1) \<Rightarrow>
          (Inr v,
           w1\<lparr>store := (store w1)
                 ((call_site fn, keyParts fn) \<mapsto>
                    \<lparr>cached_value = v, stored_at = clock, entry_tags = tags fn\<rparr>)\<rparr>))"
  by (auto simp: invoke_def Let_def split: option.splits)

lemma call_unfold: "call e r = connected e (invoke (now e) (cache_of e r))"
  by (cases r)
     (simp_all add: getFeaturedProducts_def getProductCountByCategory_def getCategories_def
        getProductById_def getRelatedProducts_def getProductsByCategory_def
        getSubCategoriesOfCategory_def)

lemma revalidate_cache_of: "revalidate (cache_of e r) = 3600"
  by (cases r)
     (simp_all add: getFeaturedProducts_cache_def getProductCountByCategory_cache_def
        getCategories_cache_def getProductById_cache_def getRelatedProducts_cache_def
        getProductsByCategory_cache_def getSubCategoriesOfCategory_cache_def)

lemma returning_effect:
  assumes "\<And>w r w1. act w = (r, w1) \<Longrightarrow> store w1 = store w \<and> (\<exists>qs. qs \<noteq> [] \<and> queries w1 = queries w @ qs)"
    and "returning wrap act w = (res, w1)"
  shows "store w1 = store w \<and> (\<exists>qs. qs \<noteq> [] \<and> queries w1 = queries w @ qs)"
  using assms(2) assms(1) [of w]
  by (auto simp: returning_def split: prod.splits sum.splits)

lemma enveloped_effect:
  assumes "\<And>w r w1. act w = (r, w1) \<Longrightarrow> store w1 = store w \<and> (\<exists>qs. qs \<noteq> [] \<and> queries w1 = queries w @ qs)"
    and "enveloped msg act w = (res, w1)"
  shows "store w1 = store w \<and> (\<exists>qs. qs \<noteq> [] \<and> queries w1 = queries w @ qs)"
  using assms(2) assms(1) [of w]
  by (auto simp: enveloped_def split: prod.splits sum.splits error.splits)

lemma find_docs_effect:
  "find_docs e m c n srt w = (r, w1) \<Longrightarrow>
   store w1 = store w \<and> (\<exists>qs. qs \<noteq> [] \<and> queries w1 = queries w @ qs)"
  by (auto simp: find_docs_def sent_def)

lemma find_by_id_effect:
  "find_by_id e m i sel w = (r, w1) \<Longrightarrow>
   store w1 = store w \<and> (\<exists>qs. qs \<noteq> [] \<and> queries w1 = queries w @ qs)"
  by (auto simp: find_by_id_def sent_def)

lemma count_documents_effect:
  "count_documents e m c w = (r, w1) \<Longrightarrow>
   store w1 = store w \<and> (\<exists>qs. qs \<noteq> [] \<and> queries w1 = queries w @ qs)"
  by (auto simp: count_documents_def sent_def)

lemma aggregate_effect:
  "aggregate e m p w = (r, w1) \<Longrightarrow>
   store w1 = store w \<and> (\<exists>qs. qs \<noteq> [] \<and> queries w1 = queries w @ qs)"
  by (auto simp: aggregate_def sent_def)

lemma related_callback_effect:
  "getRelatedProducts_callback e p w = (r, w1) \<Longrightarrow>
   store w1 = store w \<and> (\<exists>qs. qs \<noteq> [] \<and> queries w1 = queries w @ qs)"
  by (auto simp: getRelatedProducts_callback_def find_by_id_def find_docs_def sent_def
        returning_def split: sum.splits option.splits)

lemma callback_effect:
  "callback (cache_of e r) w = (res, w1) \<Longrightarrow>
   store w1 = store w \<and> (\<exists>qs. qs \<noteq> [] \<and> queries w1 = queries w @ qs)"
proof (cases r)
  case GetFeaturedProducts
  assume "callback (cache_of e r) w = (res, w1)"
  with GetFeaturedProducts show ?thesis
    using returning_effect [OF find_docs_effect]
    by (simp add: getFeaturedProducts_cache_def)
next
  case (GetProductCountByCategory c)
  assume "callback (cache_of e r) w = (res, w1)"
  with GetProductCountByCategory show ?thesis
    using returning_effect [OF count_documents_effect]
    by (simp add: getProductCountByCategory_cache_def)
next
  case GetCategories
  assume "callback (cache_of e r) w = (res, w1)"
  with GetCategories show ?thesis
    using returning_effect [OF aggregate_effect]
    by (simp add: getCategories_cache_def)
next
  case (GetProductById p)
  assume "callback (cache_of e r) w = (res, w1)"
  with GetProductById show ?thesis
    using returning_effect [OF find_by_id_effect]
    by (simp add: getProductById_cache_def)
next
  case (GetRelatedProducts p)
  assume "callback (cache_of e r) w = (res, w1)"
  with GetRelatedProducts show ?thesis
    using related_callback_effect
    by (simp add: getRelatedProducts_cache_def)
next
  case (GetProductsByCategory c sp)
  assume "callback (cache_of e r) w = (res, w1)"
  with GetProductsByCategory show ?thesis
    using enveloped_effect [OF find_docs_effect]
    by (simp add: getProductsByCategory_cache_def)
next
  case (GetSubCategoriesOfCategory s)
  assume "callback (cache_of e r) w = (res, w1)"
  with GetSubCategoriesOfCategory show ?thesis
    using enveloped_effect [OF find_docs_effect]
    by (simp add: getSubCategoriesOfCategory_cache_def)
qed

text \<open>A call that misses and returns a value leaves that value under its key.\<close>

lemma miss_then_stored:
  assumes con: "connectDb e = None"
    and miss: "miss e r w"
    and ret: "call e r w = (Inr v, w1)"
  shows "\<exists>en. store w1 (cache_key e r) = Some en \<and> cached_value en = v \<and> stored_at en = now e"
    and "sent_between w w1 \<noteq> []"
proof -
  let ?fn = "cache_of e r"
  have st: "case store w (call_site ?fn, keyParts ?fn) of
              None \<Rightarrow> True | Some en \<Rightarrow> \<not> fresh (now e) (revalidate ?fn) en"
    using miss by (simp add: miss_def cache_key_def)
  obtain res w' where cb: "callback ?fn w = (res, w')" by (cases "callback ?fn w")
  have inv: "invoke (now e) ?fn w = (Inr v, w1)"
    using ret con by (simp add: call_unfold connected_def)
  from inv invoke_stale [OF st] cb obtain
    res: "res = Inr v" and
    w1: "w1 = w'\<lparr>store := (store w')((call_site ?fn, keyParts ?fn) \<mapsto>
                  \<lparr>cached_value = v, stored_at = now e, entry_tags = tags ?fn\<rparr>)\<rparr>"
    by (cases res) auto
  show "\<exists>en. store w1 (cache_key e r) = Some en \<and> cached_value en = v \<and> stored_at en = now e"
    by (simp add: w1 cache_key_def)
  from callback_effect [OF cb] obtain qs where "qs \<noteq> []" "queries w' = queries w @ qs"
    by blast
  then show "sent_between w w1 \<noteq> []"
    by (simp add: w1 sent_between_def)
qed

lemma hit_returns_entry:
  assumes con: "connectDb e = None"
    and en: "store w (cache_key e r) = Some en"
    and fr: "now e \<le> stored_at en + 3600"
  shows "call e r w = (Inr (cached_value en), w)"
proof -
  have "fresh (now e) (revalidate (cache_of e r)) en"
    using fr by (simp add: fresh_def revalidate_cache_of)
  then show ?thesis
    using invoke_fresh [of w "cache_of e r" en "now e"] en con
    by (simp add: call_unfold connected_def cache_key_def)
qed

section \<open>Claims about the cached read functions\<close>

text \<open>
  C5. For each of the seven cached read functions: when a call finds no fresh entry,
  runs its callback (which sends at least one query) and returns a value, a second call
  with the same cache key less than 3600 seconds later returns that value and sends no
  query, whatever the database holds by then; and every call site sets the revalidation
  window to 3600 seconds.
\<close>

theorem cached_read_runs_callback_once:
  assumes "connectDb e1 = None" and "connectDb e2 = None"
    and "miss e1 r1 w"
    and "call e1 r1 w = (Inr v, w1)"
    and "cache_key e2 r2 = cache_key e1 r1"
    and "now e1 \<le> now e2" and "now e2 < now e1 + 3600"
  shows "sent_between w w1 \<noteq> []
         \<and> call e2 r2 w1 = (Inr v, w1)
         \<and> sent_between w1 (snd (call e2 r2 w1)) = []
         \<and> (\<forall>e r. revalidate (cache_of e r) = 3600)"
proof -
  from miss_then_stored(1) [OF assms(1) assms(3) assms(4)] obtain en where
    en: "store w1 (cache_key e1 r1) = Some en" "cached_value en = v" "stored_at en = now e1"
    by blast
  have "call e2 r2 w1 = (Inr (cached_value en), w1)"
    using hit_returns_entry [OF assms(2), of w1 r2 en] en assms(5) assms(7) by simp
  then have second: "call e2 r2 w1 = (Inr v, w1)" using en by simp
  show ?thesis
    using miss_then_stored(2) [OF assms(1) assms(3) assms(4)] second
    by (simp add: sent_between_def revalidate_cache_of)
qed

text \<open>The same product read at second 0 and again at second 100.\<close>

theorem cached_read_runs_callback_once_witness:
  "connectDb (shop_env 0) = None \<and> connectDb (shop_env 100) = None
   \<and> miss (shop_env 0) (GetProductById ''p1'') empty_world
   \<and> cache_key (shop_env 100) (GetProductById ''p1'') = cache_key (shop_env 0) (GetProductById ''p1'')
   \<and> now (shop_env 0) \<le> now (shop_env 100) \<and> now (shop_env 100) < now (shop_env 0) + 3600
   \<and> fst (call (shop_env 0) (GetProductById ''p1'') empty_world)
       = Inr (OneDoc (Some (shop_product ''p1'' ''Sandals'' 10 1000)))
   \<and> fst (call (shop_env 100) (GetProductById ''p1'')
             (snd (call (shop_env 0) (GetProductById ''p1'') empty_world)))
       = Inr (OneDoc (Some (shop_product ''p1'' ''Sandals'' 10 1000)))"
proof -
  let ?r = "GetProductById ''p1''"
  let ?v = "OneDoc (Some (shop_product ''p1'' ''Sandals'' 10 1000))"
  have c: "connectDb (shop_env 0) = None" "connectDb (shop_env 100) = None"
    by (simp_all add: shop_env_def)
  have m: "miss (shop_env 0) ?r empty_world"
    by (simp add: miss_def empty_world_def)
  have k: "cache_key (shop_env 100) ?r = cache_key (shop_env 0) ?r"
    by (simp add: cache_key_def getProductById_cache_def)
  have t: "now (shop_env 0) \<le> now (shop_env 100)" "now (shop_env 100) < now (shop_env 0) + 3600"
    by (simp_all add: shop_env_def)
  have f: "fst (call (shop_env 0) ?r empty_world) = Inr ?v"
    by code_simp
  then have first: "call (shop_env 0) ?r empty_world
                      = (Inr ?v, snd (call (shop_env 0) ?r empty_world))"
    by (simp add: prod_eq_iff)
  from cached_read_runs_callback_once [OF c m first k t] c m k t f
  show ?thesis by simp
qed

section \<open>What a call returns when it runs its callback\<close>

lemma call_miss:
  assumes "connectDb e = None" and "miss e r w"
  shows "fst (call e r w) = fst (callback (cache_of e r) w)"
proof -
  have st: "case store w (call_site (cache_of e r), keyParts (cache_of e r)) of
              None \<Rightarrow> True | Some en \<Rightarrow> \<not> fresh (now e) (revalidate (cache_of e r)) en"
    using assms(2) by (simp add: miss_def cache_key_def)
  show ?thesis
    using assms(1) invoke_stale [OF st]
    by (simp add: call_unfold connected_def split: prod.splits sum.splits)
qed

lemma call_miss_queries:
  assumes "connectDb e = None" and "miss e r w"
  shows "queries (snd (call e r w)) = queries (snd (callback (cache_of e r) w))"
proof -
  have st: "case store w (call_site (cache_of e r), keyParts (cache_of e r)) of
              None \<Rightarrow> True | Some en \<Rightarrow> \<not> fresh (now e) (revalidate (cache_of e r)) en"
    using assms(2) by (simp add: miss_def cache_key_def)
  show ?thesis
    using assms(1) invoke_stale [OF st]
    by (simp add: call_unfold connected_def split: prod.splits sum.splits)
qed

lemma call_hit_or_miss:
  assumes "connectDb e = None"
  shows "miss e r w
         \<or> (\<exists>en. store w (cache_key e r) = Some en \<and> call e r w = (Inr (cached_value en), w))"
proof (cases "miss e r w")
  case True
  then show ?thesis by simp
next
  case False
  then obtain en where en: "store w (cache_key e r) = Some en"
      and fr: "fresh (now e) (revalidate (cache_of e r)) en"
    by (auto simp: miss_def split: option.splits)
  then have "call e r w = (Inr (cached_value en), w)"
    using invoke_fresh [of w "cache_of e r" en "now e"] assms
    by (simp add: call_unfold connected_def cache_key_def)
  with en show ?thesis by blast
qed

lemma enveloped_result:
  "fst (enveloped msg (find_docs e m c n srt) w) =
     Inr (Response (case db_find (db e) m c n srt of
                      Inl (Error t) \<Rightarrow> Failure t
                    | Inr ds \<Rightarrow> Success msg ds))"
  by (simp add: enveloped_def find_docs_def split: sum.splits error.splits)

lemma products_by_category_miss:
  assumes "connectDb e = None" and "miss e (GetProductsByCategory c sp) w"
  shows "fst (getProductsByCategory e c sp w) =
           Inr (Response
                  (case db_find (db e) ProductModel
                          (MatchConditions (build_match_conditions c sp))
                          None (Some (''createdAt'', - 1)) of
                     Inl (Error t) \<Rightarrow> Failure t
                   | Inr ds \<Rightarrow>
                       Success (''Successfully fetched products for category: '' @ c) ds))"
proof -
  have "fst (call e (GetProductsByCategory c sp) w) = fst (callback (cache_of e (GetProductsByCategory c sp)) w)"
    using assms by (rule call_miss)
  then show ?thesis
    by (simp add: getProductsByCategory_cache_def enveloped_result
          cong: sum.case_cong error.case_cong)
qed

lemma subcategories_miss:
  assumes "connectDb e = None" and "miss e (GetSubCategoriesOfCategory slug) w"
  shows "fst (getSubCategoriesOfCategory e slug w) =
           Inr (Response
                  (case db_find (db e) SubcategoryModel
                          (FieldEq ''category.slug'' (Some (BStr slug))) None None of
                     Inl (Error t) \<Rightarrow> Failure t
                   | Inr ds \<Rightarrow> Success ''Fetched subcategories!'' ds))"
proof -
  have "fst (call e (GetSubCategoriesOfCategory slug) w) = fst (callback (cache_of e (GetSubCategoriesOfCategory slug)) w)"
    using assms by (rule call_miss)
  then show ?thesis
    by (simp add: getSubCategoriesOfCategory_cache_def enveloped_result)
qed

lemma envelope_always:
  assumes "connectDb e = None" and "envelopes_only w"
    and "call_site (cache_of e r) \<in> {ProductsByCategory, SubCategoriesOfCategory}"
  shows "\<exists>x. fst (call e r w) = Inr (Response x)"
proof -
  from call_hit_or_miss [OF assms(1), of r w] show ?thesis
  proof
    assume m: "miss e r w"
    from assms(3) show ?thesis
      by (cases r)
         (use call_miss [OF assms(1) m] in
           \<open>simp_all add: getFeaturedProducts_cache_def getProductCountByCategory_cache_def
              getCategories_cache_def getProductById_cache_def getRelatedProducts_cache_def
              getProductsByCategory_cache_def getSubCategoriesOfCategory_cache_def
              enveloped_result del: call.simps\<close>)
  next
    assume "\<exists>en. store w (cache_key e r) = Some en \<and> call e r w = (Inr (cached_value en), w)"
    then obtain en where en: "store w (cache_key e r) = Some en"
        and c: "call e r w = (Inr (cached_value en), w)"
      by blast
    from assms(2) en assms(3) obtain x where "cached_value en = Response x"
      unfolding envelopes_only_def cache_key_def by fastforce
    with c show ?thesis by simp
  qed
qed

lemma returning_result:
  "fst (returning wrap act w) = (case fst (act w) of Inl err \<Rightarrow> Inl err | Inr v \<Rightarrow> Inr (wrap v))"
  by (simp add: returning_def split: prod.splits sum.splits)

lemma featured_miss:
  assumes "connectDb e = None" and "miss e GetFeaturedProducts w"
  shows "fst (getFeaturedProducts e w) =
           (case db_find (db e) ProductModel AnyDoc (Some 8) (Some (''createdAt'', - 1)) of
              Inl err \<Rightarrow> Inl err
            | Inr ds \<Rightarrow> Inr (Docs ds))"
proof -
  have "fst (call e (GetFeaturedProducts) w) = fst (callback (cache_of e (GetFeaturedProducts)) w)"
    using assms by (rule call_miss)
  then show ?thesis
    by (simp add: getFeaturedProducts_cache_def returning_result find_docs_def)
qed

lemma product_count_miss:
  assumes "connectDb e = None" and "miss e (GetProductCountByCategory c) w"
  shows "fst (getProductCountByCategory e c w) =
           (case db_countDocuments (db e) ProductModel
                   (FieldEq ''category.id'' (Some (BStr c))) of
              Inl err \<Rightarrow> Inl err
            | Inr n \<Rightarrow> Inr (Count n))"
proof -
  have "fst (call e (GetProductCountByCategory c) w) = fst (callback (cache_of e (GetProductCountByCategory c)) w)"
    using assms by (rule call_miss)
  then show ?thesis
    by (simp add: getProductCountByCategory_cache_def returning_result count_documents_def)
qed

lemma categories_miss:
  assumes "connectDb e = None" and "miss e GetCategories w"
  shows "fst (getCategories e w) =
           (case db_aggregate (db e) CategoryModel categories_pipeline of
              Inl err \<Rightarrow> Inl err
            | Inr ds \<Rightarrow> Inr (Docs ds))"
proof -
  have "fst (call e (GetCategories) w) = fst (callback (cache_of e (GetCategories)) w)"
    using assms by (rule call_miss)
  then show ?thesis
    by (simp add: getCategories_cache_def returning_result aggregate_def)
qed

lemma product_by_id_miss:
  assumes "connectDb e = None" and "miss e (GetProductById p) w"
  shows "fst (getProductById e p w) =
           (case db_findById (db e) ProductModel p None of
              Inl err \<Rightarrow> Inl err
            | Inr d \<Rightarrow> Inr (OneDoc d))"
proof -
  have "fst (call e (GetProductById p) w) = fst (callback (cache_of e (GetProductById p)) w)"
    using assms by (rule call_miss)
  then show ?thesis
    by (simp add: getProductById_cache_def returning_result find_by_id_def)
qed

lemma related_callback_result:
  "fst (getRelatedProducts_callback e p w) =
     (case db_findById (db e) ProductModel p (Some ''categoryId subCategoryId'') of
        Inl err \<Rightarrow> Inl err
      | Inr None \<Rightarrow> Inr (Docs [])
      | Inr (Some product) \<Rightarrow>
          (case db_find (db e) ProductModel
                  (Or [FieldEq ''categoryId'' (map_of product ''categoryId''),
                       FieldEq ''subCategoryId'' (map_of product ''subCategoryId'')])
                  (Some 4) (Some (''createdAt'', - 1)) of
             Inl err \<Rightarrow> Inl err
           | Inr ds \<Rightarrow> Inr (Docs ds)))"
  by (simp add: getRelatedProducts_callback_def find_by_id_def find_docs_def returning_result
        split: sum.splits option.splits)

lemma related_miss:
  assumes "connectDb e = None" and "miss e (GetRelatedProducts p) w"
  shows "fst (getRelatedProducts e p w) =
     (case db_findById (db e) ProductModel p (Some ''categoryId subCategoryId'') of
        Inl err \<Rightarrow> Inl err
      | Inr None \<Rightarrow> Inr (Docs [])
      | Inr (Some product) \<Rightarrow>
          (case db_find (db e) ProductModel
                  (Or [FieldEq ''categoryId'' (map_of product ''categoryId''),
                       FieldEq ''subCategoryId'' (map_of product ''subCategoryId'')])
                  (Some 4) (Some (''createdAt'', - 1)) of
             Inl err \<Rightarrow> Inl err
           | Inr ds \<Rightarrow> Inr (Docs ds)))"
proof -
  have "fst (call e (GetRelatedProducts p) w) = fst (callback (cache_of e (GetRelatedProducts p)) w)"
    using assms by (rule call_miss)
  then show ?thesis
    by (simp add: getRelatedProducts_cache_def related_callback_result)
qed

lemma enveloped_queries:
  "queries (snd (enveloped msg (find_docs e m c n srt) w)) = queries w @ [Find m c n srt]"
  by (simp add: enveloped_def find_docs_def sent_def split: sum.splits error.splits)

lemma products_by_category_sent:
  assumes "connectDb e = None" and "miss e (GetProductsByCategory c sp) w"
  shows "sent_between w (snd (getProductsByCategory e c sp w)) =
           [Find ProductModel (MatchConditions (build_match_conditions c sp))
              None (Some (''createdAt'', - 1))]"
proof -
  have "queries (snd (call e (GetProductsByCategory c sp) w))
          = queries (snd (callback (cache_of e (GetProductsByCategory c sp)) w))"
    using assms by (rule call_miss_queries)
  then show ?thesis
    by (simp add: getProductsByCategory_cache_def enveloped_queries sent_between_def)
qed

text \<open>
  C4. \<open>getProductsByCategory("shoes", {sex: "men", gte: "50"})\<close> builds the match
  conditions \<open>category.slug = "shoes"\<close>, \<open>sex = "men"\<close> and \<open>price.$gte = 50\<close>,
  the number, and nothing else; when the call runs its callback, the one query it sends
  is the \<open>find\<close> with these conditions.
\<close>

theorem getProductsByCategory_shoes_example:
  "build_match_conditions ''shoes'' [(''sex'', Str ''men''), (''gte'', Str ''50'')]
     = \<lparr>category_slug = ''shoes'', sex = Some (Str ''men''), subCategory_slug = None,
        mc_price = Some \<lparr>gte = Some (Fin 50), lte = None\<rparr>\<rparr>
   \<and> (connectDb e = None \<longrightarrow>
        miss e (GetProductsByCategory ''shoes'' [(''sex'', Str ''men''), (''gte'', Str ''50'')]) w
        \<longrightarrow>
        sent_between w
          (snd (getProductsByCategory e ''shoes''
                  [(''sex'', Str ''men''), (''gte'', Str ''50'')] w))
        = [Find ProductModel
             (MatchConditions
                \<lparr>category_slug = ''shoes'', sex = Some (Str ''men''), subCategory_slug = None,
                 mc_price = Some \<lparr>gte = Some (Fin 50), lte = None\<rparr>\<rparr>)
             None (Some (''createdAt'', - 1))])"
proof -
  have mc: "build_match_conditions ''shoes'' [(''sex'', Str ''men''), (''gte'', Str ''50'')]
     = \<lparr>category_slug = ''shoes'', sex = Some (Str ''men''), subCategory_slug = None,
        mc_price = Some \<lparr>gte = Some (Fin 50), lte = None\<rparr>\<rparr>"
    by code_simp
  show ?thesis
    using products_by_category_sent
            [of e "''shoes''" "[(''sex'', Str ''men''), (''gte'', Str ''50'')]" w]
    by (simp add: mc)
qed

text \<open>The call on the catalog, with nothing cached.\<close>

theorem getProductsByCategory_shoes_example_witness:
  "connectDb (shop_env 0) = None
   \<and> miss (shop_env 0)
        (GetProductsByCategory ''shoes'' [(''sex'', Str ''men''), (''gte'', Str ''50'')])
        empty_world
   \<and> sent_between empty_world
        (snd (getProductsByCategory (shop_env 0) ''shoes''
                [(''sex'', Str ''men''), (''gte'', Str ''50'')] empty_world))
      = [Find ProductModel
           (MatchConditions
              \<lparr>category_slug = ''shoes'', sex = Some (Str ''men''), subCategory_slug = None,
               mc_price = Some \<lparr>gte = Some (Fin 50), lte = None\<rparr>\<rparr>)
           None (Some (''createdAt'', - 1))]"
proof -
  have c: "connectDb (shop_env 0) = None" by (simp add: shop_env_def)
  have m: "miss (shop_env 0)
             (GetProductsByCategory ''shoes'' [(''sex'', Str ''men''), (''gte'', Str ''50'')])
             empty_world"
    by (simp add: miss_def empty_world_def)
  note sent = getProductsByCategory_shoes_example
                [of "shop_env 0" empty_world, THEN conjunct2, rule_format, OF c m]
  from c m sent show ?thesis by simp
qed

section \<open>Envelopes and thrown errors\<close>

text \<open>
  The store keeps holding envelopes under the keys of the two envelope-returning
  functions, whichever read function is called.
\<close>

lemma envelopes_only_empty: "envelopes_only empty_world"
  by (simp add: envelopes_only_def empty_world_def)

lemma callback_envelope:
  assumes "call_site (cache_of e r) \<in> {ProductsByCategory, SubCategoriesOfCategory}"
  shows "\<exists>x. fst (callback (cache_of e r) w) = Inr (Response x)"
  using assms
  by (cases r)
     (simp_all add: getFeaturedProducts_cache_def getProductCountByCategory_cache_def
        getCategories_cache_def getProductById_cache_def getRelatedProducts_cache_def
        getProductsByCategory_cache_def getSubCategoriesOfCategory_cache_def enveloped_result)

lemma envelopes_only_kept:
  assumes "envelopes_only w"
  shows "envelopes_only (snd (call e r w))"
proof (cases "connectDb e")
  case (Some err)
  then show ?thesis using assms by (simp add: call_unfold connected_def)
next
  case None
  let ?fn = "cache_of e r"
  from call_hit_or_miss [OF None, of r w] show ?thesis
  proof
    assume "\<exists>en. store w (cache_key e r) = Some en \<and> call e r w = (Inr (cached_value en), w)"
    then show ?thesis using assms by auto
  next
    assume m: "miss e r w"
    then have st: "case store w (call_site ?fn, keyParts ?fn) of
                     None \<Rightarrow> True | Some en \<Rightarrow> \<not> fresh (now e) (revalidate ?fn) en"
      by (simp add: miss_def cache_key_def)
    obtain res w' where cb: "callback ?fn w = (res, w')" by (cases "callback ?fn w")
    from callback_effect [OF cb] have sw: "store w' = store w" by simp
    show ?thesis
    proof (cases res)
      case (Inl err)
      then have "snd (call e r w) = w'"
        using None invoke_stale [OF st] cb by (simp add: call_unfold connected_def)
      then show ?thesis using assms sw by (simp add: envelopes_only_def)
    next
      case (Inr v)
      then have w1: "snd (call e r w) =
                       w'\<lparr>store := (store w')((call_site ?fn, keyParts ?fn) \<mapsto>
                            \<lparr>cached_value = v, stored_at = now e, entry_tags = tags ?fn\<rparr>)\<rparr>"
        using None invoke_stale [OF st] cb by (simp add: call_unfold connected_def)
      have "call_site ?fn \<in> {ProductsByCategory, SubCategoriesOfCategory} \<Longrightarrow> \<exists>x. v = Response x"
        using callback_envelope [of e r w] cb Inr by simp
      then show ?thesis
        using assms sw unfolding w1 envelopes_only_def by auto
    qed
  qed
qed

text \<open>
  C7. After \<open>connectDb()\<close> has returned: \<open>getProductsByCategory\<close> and
  \<open>getSubCategoriesOfCategory\<close> always return an envelope; when they run their
  callback it is the success envelope with the message and the documents if the read
  resolves, and the failure envelope with the message of the error if it rejects, so
  the error is not thrown on. The five functions without a \<open>catch\<close> return the
  value of their read and throw the error of a read that rejects.
\<close>

theorem envelope_readers_catch_plain_readers_throw:
  assumes "connectDb e = None"
  shows
    "(envelopes_only w \<longrightarrow>
        (\<exists>x. fst (getProductsByCategory e c sp w) = Inr (Response x))
        \<and> (\<exists>x. fst (getSubCategoriesOfCategory e slug w) = Inr (Response x)))
     \<and> (miss e (GetProductsByCategory c sp) w \<longrightarrow>
          fst (getProductsByCategory e c sp w) =
            Inr (Response
                   (case db_find (db e) ProductModel
                           (MatchConditions (build_match_conditions c sp))
                           None (Some (''createdAt'', - 1)) of
                      Inl (Error t) \<Rightarrow> Failure t
                    | Inr ds \<Rightarrow>
                        Success (''Successfully fetched products for category: '' @ c) ds)))
     \<and> (miss e (GetSubCategoriesOfCategory slug) w \<longrightarrow>
          fst (getSubCategoriesOfCategory e slug w) =
            Inr (Response
                   (case db_find (db e) SubcategoryModel
                           (FieldEq ''category.slug'' (Some (BStr slug))) None None of
                      Inl (Error t) \<Rightarrow> Failure t
                    | Inr ds \<Rightarrow> Success ''Fetched subcategories!'' ds)))
     \<and> (miss e GetFeaturedProducts w \<longrightarrow>
          fst (getFeaturedProducts e w) =
            (case db_find (db e) ProductModel AnyDoc (Some 8) (Some (''createdAt'', - 1)) of
               Inl err \<Rightarrow> Inl err
             | Inr ds \<Rightarrow> Inr (Docs ds)))
     \<and> (miss e (GetProductCountByCategory cid) w \<longrightarrow>
          fst (getProductCountByCategory e cid w) =
            (case db_countDocuments (db e) ProductModel
                    (FieldEq ''category.id'' (Some (BStr cid))) of
               Inl err \<Rightarrow> Inl err
             | Inr n \<Rightarrow> Inr (Count n)))
     \<and> (miss e GetCategories w \<longrightarrow>
          fst (getCategories e w) =
            (case db_aggregate (db e) CategoryModel categories_pipeline of
               Inl err \<Rightarrow> Inl err
             | Inr ds \<Rightarrow> Inr (Docs ds)))
     \<and> (miss e (GetProductById p) w \<longrightarrow>
          fst (getProductById e p w) =
            (case db_findById (db e) ProductModel p None of
               Inl err \<Rightarrow> Inl err
             | Inr d \<Rightarrow> Inr (OneDoc d)))
     \<and> (miss e (GetRelatedProducts q) w \<longrightarrow>
          fst (getRelatedProducts e q w) =
            (case db_findById (db e) ProductModel q (Some ''categoryId subCategoryId'') of
               Inl err \<Rightarrow> Inl err
             | Inr None \<Rightarrow> Inr (Docs [])
             | Inr (Some product) \<Rightarrow>
                 (case db_find (db e) ProductModel
                         (Or [FieldEq ''categoryId'' (map_of product ''categoryId''),
                              FieldEq ''subCategoryId'' (map_of product ''subCategoryId'')])
                         (Some 4) (Some (''createdAt'', - 1)) of
                    Inl err \<Rightarrow> Inl err
                  | Inr ds \<Rightarrow> Inr (Docs ds))))"
proof -
  have env1: "envelopes_only w \<Longrightarrow> \<exists>x. fst (getProductsByCategory e c sp w) = Inr (Response x)"
    using envelope_always [OF assms, of w "GetProductsByCategory c sp"]
    by (simp add: getProductsByCategory_cache_def)
  have env2: "envelopes_only w \<Longrightarrow> \<exists>x. fst (getSubCategoriesOfCategory e slug w) = Inr (Response x)"
    using envelope_always [OF assms, of w "GetSubCategoriesOfCategory slug"]
    by (simp add: getSubCategoriesOfCategory_cache_def)
  show ?thesis
    apply (intro conjI impI)
            apply (erule env1)
           apply (erule env2)
          apply (erule products_by_category_miss [OF assms])
         apply (erule subcategories_miss [OF assms])
        apply (erule featured_miss [OF assms])
       apply (erule product_count_miss [OF assms])
      apply (erule categories_miss [OF assms])
     apply (erule product_by_id_miss [OF assms])
    apply (erule related_miss [OF assms])
    done
qed

text \<open>With a database that rejects every call and nothing cached.\<close>

theorem envelope_readers_catch_plain_readers_throw_witness:
  "connectDb (down_env 0) = None \<and> envelopes_only empty_world
   \<and> miss (down_env 0) (GetProductsByCategory ''shoes'' []) empty_world
   \<and> miss (down_env 0) GetFeaturedProducts empty_world
   \<and> fst (getProductsByCategory (down_env 0) ''shoes'' [] empty_world)
       = Inr (Response (Failure ''connection lost''))
   \<and> fst (getFeaturedProducts (down_env 0) empty_world) = Inl (Error ''connection lost'')"
proof -
  have c: "connectDb (down_env 0) = None" by (simp add: down_env_def)
  have m: "miss (down_env 0) r empty_world" for r
    by (simp add: miss_def empty_world_def)
  have d: "db_find (db (down_env 0)) md cnd n srt = Inl (Error ''connection lost'')" for md cnd n srt
    by (simp add: down_env_def down_db_def)
  from envelope_readers_catch_plain_readers_throw
         [OF c, of empty_world "''shoes''" "[]" "''shoes''" "''c1''" "''p1''" "''p1''"]
       c m envelopes_only_empty d
  show ?thesis by simp
qed

section \<open>The key of getSubCategoriesOfCategory\<close>

text \<open>
  C9. The cache key of \<open>getSubCategoriesOfCategory\<close> is the constant
  \<open>["subcategories"]\<close> and its tag list is constant too, so for distinct slugs
  \<open>s1\<close> and \<open>s2\<close> a call for \<open>s2\<close> made within the revalidation window of a call
  for \<open>s1\<close> that ran its callback returns the envelope computed for \<open>s1\<close> and sends
  no query.
\<close>

theorem subcategories_share_one_cache_entry:
  "keyParts (getSubCategoriesOfCategory_cache e1 s1) = [''subcategories'']
   \<and> cache_key e1 (GetSubCategoriesOfCategory s1) = cache_key e2 (GetSubCategoriesOfCategory s2)
   \<and> tags (getSubCategoriesOfCategory_cache e1 s1) = tags (getSubCategoriesOfCategory_cache e2 s2)
   \<and> (s1 \<noteq> s2 \<longrightarrow> connectDb e1 = None \<longrightarrow> connectDb e2 = None \<longrightarrow>
        miss e1 (GetSubCategoriesOfCategory s1) w \<longrightarrow>
        getSubCategoriesOfCategory e1 s1 w = (Inr v, w1) \<longrightarrow>
        now e1 \<le> now e2 \<longrightarrow> now e2 < now e1 + 3600 \<longrightarrow>
        getSubCategoriesOfCategory e2 s2 w1 = (Inr v, w1)
        \<and> v = Response
                (case db_find (db e1) SubcategoryModel
                        (FieldEq ''category.slug'' (Some (BStr s1))) None None of
                   Inl (Error t) \<Rightarrow> Failure t
                 | Inr ds \<Rightarrow> Success ''Fetched subcategories!'' ds))"
proof -
  have key: "cache_key e1 (GetSubCategoriesOfCategory s1) = cache_key e2 (GetSubCategoriesOfCategory s2)"
    by (simp add: cache_key_def getSubCategoriesOfCategory_cache_def)
  have reuse: "getSubCategoriesOfCategory e2 s2 w1 = (Inr v, w1)
        \<and> v = Response
                (case db_find (db e1) SubcategoryModel
                        (FieldEq ''category.slug'' (Some (BStr s1))) None None of
                   Inl (Error t) \<Rightarrow> Failure t
                 | Inr ds \<Rightarrow> Success ''Fetched subcategories!'' ds)"
    if c1: "connectDb e1 = None" and c2: "connectDb e2 = None"
      and m: "miss e1 (GetSubCategoriesOfCategory s1) w"
      and r: "getSubCategoriesOfCategory e1 s1 w = (Inr v, w1)"
      and t: "now e2 < now e1 + 3600"
  proof -
    have r': "call e1 (GetSubCategoriesOfCategory s1) w = (Inr v, w1)" using r by simp
    from miss_then_stored(1) [OF c1 m r'] obtain en where
      en: "store w1 (cache_key e1 (GetSubCategoriesOfCategory s1)) = Some en"
          "cached_value en = v" "stored_at en = now e1"
      by blast
    have "call e2 (GetSubCategoriesOfCategory s2) w1 = (Inr (cached_value en), w1)"
      using hit_returns_entry [OF c2, of w1 "GetSubCategoriesOfCategory s2" en] en key t by simp
    moreover have "Inr v = Inr (Response
                (case db_find (db e1) SubcategoryModel
                        (FieldEq ''category.slug'' (Some (BStr s1))) None None of
                   Inl (Error t) \<Rightarrow> Failure t
                 | Inr ds \<Rightarrow> Success ''Fetched subcategories!'' ds))"
      using subcategories_miss [OF c1 m] r by simp
    ultimately show ?thesis using en by simp
  qed
  show ?thesis
    using key reuse by (simp add: getSubCategoriesOfCategory_cache_def)
qed

text \<open>
  On the catalog the subcategories of \<open>shoes\<close> are returned for \<open>hats\<close>, which
  has none of its own.
\<close>

theorem subcategories_share_one_cache_entry_witness:
  "''shoes'' \<noteq> ''hats''
   \<and> connectDb (shop_env 0) = None \<and> connectDb (shop_env 100) = None
   \<and> miss (shop_env 0) (GetSubCategoriesOfCategory ''shoes'') empty_world
   \<and> now (shop_env 0) \<le> now (shop_env 100) \<and> now (shop_env 100) < now (shop_env 0) + 3600
   \<and> fst (getSubCategoriesOfCategory (shop_env 100) ''hats''
             (snd (getSubCategoriesOfCategory (shop_env 0) ''shoes'' empty_world)))
       = Inr (Response (Success ''Fetched subcategories!'' (shop_collections ''subcategories'')))
   \<and> fst (getSubCategoriesOfCategory (shop_env 100) ''hats'' empty_world)
       = Inr (Response (Success ''Fetched subcategories!'' []))"
proof -
  let ?v = "Response (Success ''Fetched subcategories!'' (shop_collections ''subcategories''))"
  let ?w1 = "snd (getSubCategoriesOfCategory (shop_env 0) ''shoes'' empty_world)"
  have ne: "''shoes'' \<noteq> ''hats''" by simp
  have c: "connectDb (shop_env 0) = None" "connectDb (shop_env 100) = None"
    by (simp_all add: shop_env_def)
  have m: "miss (shop_env 0) (GetSubCategoriesOfCategory ''shoes'') empty_world"
    by (simp add: miss_def empty_world_def)
  have t: "now (shop_env 0) \<le> now (shop_env 100)" "now (shop_env 100) < now (shop_env 0) + 3600"
    by (simp_all add: shop_env_def)
  have f: "fst (getSubCategoriesOfCategory (shop_env 0) ''shoes'' empty_world) = Inr ?v"
    by code_simp
  then have first: "getSubCategoriesOfCategory (shop_env 0) ''shoes'' empty_world = (Inr ?v, ?w1)"
    by (simp add: prod_eq_iff)
  have own: "fst (getSubCategoriesOfCategory (shop_env 100) ''hats'' empty_world)
               = Inr (Response (Success ''Fetched subcategories!'' []))"
    by code_simp
  have second: "getSubCategoriesOfCategory (shop_env 100) ''hats'' ?w1 = (Inr ?v, ?w1)"
    using subcategories_share_one_cache_entry
            [of "shop_env 0" "''shoes''" "shop_env 100" "''hats''" empty_world ?v ?w1,
             THEN conjunct2, THEN conjunct2, THEN conjunct2, rule_format,
             OF ne c m first t, THEN conjunct1] .
  show ?thesis
    using ne c m t own by (simp add: second)
qed

section \<open>getRelatedProducts for a product that does not exist\<close>

lemma related_callback_queries:
  "queries (snd (getRelatedProducts_callback e p w)) =
     queries w
     @ FindById ProductModel p (Some ''categoryId subCategoryId'')
     # (case db_findById (db e) ProductModel p (Some ''categoryId subCategoryId'') of
          Inr (Some product) \<Rightarrow>
            [Find ProductModel
               (Or [FieldEq ''categoryId'' (map_of product ''categoryId''),
                    FieldEq ''subCategoryId'' (map_of product ''subCategoryId'')])
               (Some 4) (Some (''createdAt'', - 1))]
        | _ \<Rightarrow> [])"
  by (simp add: getRelatedProducts_callback_def find_by_id_def find_docs_def returning_def
        sent_def split: sum.splits option.splits)

lemma related_sent:
  "sent_between w (snd (getRelatedProducts e p w)) =
     (if connectDb e = None \<and> miss e (GetRelatedProducts p) w
      then FindById ProductModel p (Some ''categoryId subCategoryId'')
           # (case db_findById (db e) ProductModel p (Some ''categoryId subCategoryId'') of
                Inr (Some product) \<Rightarrow>
                  [Find ProductModel
                     (Or [FieldEq ''categoryId'' (map_of product ''categoryId''),
                          FieldEq ''subCategoryId'' (map_of product ''subCategoryId'')])
                     (Some 4) (Some (''createdAt'', - 1))]
              | _ \<Rightarrow> [])
      else [])"
proof (cases "connectDb e")
  case (Some err)
  then show ?thesis
    by (simp add: getRelatedProducts_def connected_def sent_between_def)
next
  case None
  show ?thesis
  proof (cases "miss e (GetRelatedProducts p) w")
    case True
    have "queries (snd (call e (GetRelatedProducts p) w))
            = queries (snd (callback (cache_of e (GetRelatedProducts p)) w))"
      using None True by (rule call_miss_queries)
    then show ?thesis
      using None True
      by (simp add: getRelatedProducts_cache_def related_callback_queries sent_between_def)
  next
    case False
    with call_hit_or_miss [OF None, of "GetRelatedProducts p" w]
    have "snd (call e (GetRelatedProducts p) w) = w" by auto
    then show ?thesis using False by (simp add: sent_between_def)
  qed
qed

text \<open>
  C10. When \<open>getRelatedProducts\<close> runs its callback and \<open>findById\<close> resolves to
  \<open>null\<close>, the result is the empty list and the read by id is the only query sent;
  in every call, a \<open>find\<close> is sent only if \<open>findById\<close> resolved to a product.
\<close>

theorem getRelatedProducts_unknown_product:
  "(connectDb e = None \<longrightarrow> miss e (GetRelatedProducts p) w \<longrightarrow>
      db_findById (db e) ProductModel p (Some ''categoryId subCategoryId'') = Inr None \<longrightarrow>
      fst (getRelatedProducts e p w) = Inr (Docs [])
      \<and> sent_between w (snd (getRelatedProducts e p w))
          = [FindById ProductModel p (Some ''categoryId subCategoryId'')])
   \<and> (\<forall>m c n srt.
         Find m c n srt \<in> set (sent_between w (snd (getRelatedProducts e p w))) \<longrightarrow>
         (\<exists>product. db_findById (db e) ProductModel p (Some ''categoryId subCategoryId'')
                      = Inr (Some product)))"
proof -
  have first: "fst (getRelatedProducts e p w) = Inr (Docs [])
      \<and> sent_between w (snd (getRelatedProducts e p w))
          = [FindById ProductModel p (Some ''categoryId subCategoryId'')]"
    if "connectDb e = None" and "miss e (GetRelatedProducts p) w"
      and "db_findById (db e) ProductModel p (Some ''categoryId subCategoryId'') = Inr None"
    using that related_miss [OF that(1) that(2)] by (simp add: related_sent)
  have second: "\<exists>product. db_findById (db e) ProductModel p (Some ''categoryId subCategoryId'')
                      = Inr (Some product)"
    if "Find m c n srt \<in> set (sent_between w (snd (getRelatedProducts e p w)))" for m c n srt
    using that
    by (cases "db_findById (db e) ProductModel p (Some ''categoryId subCategoryId'')")
       (auto simp: related_sent split: if_splits option.splits)
  from first second show ?thesis by blast
qed

text \<open>An id the catalog does not have, and the id of one of its products.\<close>

theorem getRelatedProducts_unknown_product_witness:
  "connectDb (shop_env 0) = None
   \<and> miss (shop_env 0) (GetRelatedProducts ''zz'') empty_world
   \<and> db_findById (db (shop_env 0)) ProductModel ''zz'' (Some ''categoryId subCategoryId'')
       = Inr None
   \<and> fst (getRelatedProducts (shop_env 0) ''zz'' empty_world) = Inr (Docs [])
   \<and> sent_between empty_world (snd (getRelatedProducts (shop_env 0) ''zz'' empty_world))
       = [FindById ProductModel ''zz'' (Some ''categoryId subCategoryId'')]
   \<and> Find ProductModel
        (Or [FieldEq ''categoryId'' (Some (BOid ''c1'')), FieldEq ''subCategoryId'' None])
        (Some 4) (Some (''createdAt'', - 1))
       \<in> set (sent_between empty_world (snd (getRelatedProducts (shop_env 0) ''p1'' empty_world)))
   \<and> (\<exists>product. db_findById (db (shop_env 0)) ProductModel ''p1''
                    (Some ''categoryId subCategoryId'') = Inr (Some product))"
proof -
  have c: "connectDb (shop_env 0) = None" by (simp add: shop_env_def)
  have m: "miss (shop_env 0) (GetRelatedProducts ''zz'') empty_world"
    by (simp add: miss_def empty_world_def)
  have n: "db_findById (db (shop_env 0)) ProductModel ''zz'' (Some ''categoryId subCategoryId'')
             = Inr None"
    by code_simp
  have s: "Find ProductModel
        (Or [FieldEq ''categoryId'' (Some (BOid ''c1'')), FieldEq ''subCategoryId'' None])
        (Some 4) (Some (''createdAt'', - 1))
       \<in> set (sent_between empty_world (snd (getRelatedProducts (shop_env 0) ''p1'' empty_world)))"
    by code_simp
  note missing = getRelatedProducts_unknown_product
                   [of "shop_env 0" "''zz''" empty_world, THEN conjunct1, rule_format, OF c m n]
  note found = getRelatedProducts_unknown_product
                 [of "shop_env 0" "''p1''" empty_world, THEN conjunct2, rule_format, OF s]
  from c m n s missing found show ?thesis by simp
qed

end
